theory Spec2Isabelle
  imports Complex_Main
begin

section \<open>JavaScript values handled by the proxy function\<close>

text \<open>
  The edge function \<^verbatim>\<open>supabase/functions/fetch-shopify-data/index.ts\<close> reads a JSON
  request body, looks a store up and relays one GraphQL query. The values it handles are
  \<^verbatim>\<open>undefined\<close> (what an absent property reads as) and the results of
  \<^verbatim>\<open>JSON.parse\<close>: null, booleans, finite numbers, strings, arrays and objects (an
  association list, one entry per key). Strings are byte strings.

  The source file holds two versions of the handler. The model follows the first one
  (lines 1 to 210), which builds every error response itself; the second one throws on
  invalid input and on upstream failures and answers them from its \<^verbatim>\<open>catch\<close>
  clause.
\<close>

datatype jsval =
    JUndefined
  | JNull
  | JBool bool
  | JNum rat
  | JStr string
  | JArr "jsval list"
  | JObj "(string \<times> jsval) list"

text \<open>
  A thrown value is an \<^verbatim>\<open>Error\<close> object; the handler only ever reads its
  \<^verbatim>\<open>message\<close>. For errors raised by the runtime itself the message text is the
  engine's and stands here as a description.
\<close>

datatype exn = TypeError string | RangeError string | ThrownError string

fun message :: "exn \<Rightarrow> string" where
  "message (TypeError m) = m"
| "message (RangeError m) = m"
| "message (ThrownError m) = m"

text \<open>Truthiness, as \<^verbatim>\<open>!x\<close> and \<^verbatim>\<open>x || y\<close> test it.\<close>

fun truthy :: "jsval \<Rightarrow> bool" where
  "truthy JUndefined = False"
| "truthy JNull = False"
| "truthy (JBool b) = b"
| "truthy (JNum x) = (x \<noteq> 0)"
| "truthy (JStr s) = (s \<noteq> [])"
| "truthy (JArr xs) = True"
| "truthy (JObj kvs) = True"

text \<open>
  Reading a named property \<^verbatim>\<open>v.k\<close> for a key \<open>k\<close> that no built-in prototype defines
  (\<^verbatim>\<open>store_id\<close>, \<^verbatim>\<open>data_type\<close>, \<^verbatim>\<open>errors\<close>, and the property names that the row
  normalizer reads, such as \<^verbatim>\<open>totalPriceSet\<close> or \<^verbatim>\<open>amount\<close>): \<^verbatim>\<open>undefined\<close> and \<^verbatim>\<open>null\<close>
  have no properties and the read throws; an object yields its own entry or
  \<^verbatim>\<open>undefined\<close>; every other value yields \<^verbatim>\<open>undefined\<close>.
\<close>

fun get_prop :: "jsval \<Rightarrow> string \<Rightarrow> exn + jsval" where
  "get_prop JUndefined k =
     Inl (TypeError (''Cannot read properties of undefined (reading '' @ k @ '')''))"
| "get_prop JNull k =
     Inl (TypeError (''Cannot read properties of null (reading '' @ k @ '')''))"
| "get_prop (JObj kvs) k = Inr (case map_of kvs k of None \<Rightarrow> JUndefined | Some v \<Rightarrow> v)"
| "get_prop v k = Inr JUndefined"

text \<open>
  \<^verbatim>\<open>ToString\<close> of such a value, as a computed property key, a template literal and
  \<^verbatim>\<open>parseFloat\<close> perform it. The decimal rendering of a number is the runtime's and
  is a parameter.
  An array joins its elements with commas, \<^verbatim>\<open>undefined\<close> and \<^verbatim>\<open>null\<close> elements
  contributing the empty string. A plain object converts through
  \<^verbatim>\<open>Object.prototype.toString\<close>, unless an own entry named \<^verbatim>\<open>toString\<close> (never
  callable in parsed JSON) shadows it, in which case the conversion throws.
\<close>

fun ToString :: "(rat \<Rightarrow> string) \<Rightarrow> jsval \<Rightarrow> exn + string"
  and join_elements :: "(rat \<Rightarrow> string) \<Rightarrow> jsval list \<Rightarrow> exn + string" where
  "ToString ns JUndefined = Inr ''undefined''"
| "ToString ns JNull = Inr ''null''"
| "ToString ns (JBool b) = Inr (if b then ''true'' else ''false'')"
| "ToString ns (JNum x) = Inr (ns x)"
| "ToString ns (JStr s) = Inr s"
| "ToString ns (JArr xs) = join_elements ns xs"
| "ToString ns (JObj kvs) =
     (if ''toString'' \<in> set (map fst kvs)
      then Inl (TypeError ''Cannot convert object to primitive value'')
      else Inr ''[object Object]'')"
| "join_elements ns [] = Inr []"
| "join_elements ns (x # xs) =
     (case (if x = JUndefined \<or> x = JNull then Inr [] else ToString ns x) of
        Inl e \<Rightarrow> Inl e
      | Inr s \<Rightarrow>
          (if xs = [] then Inr s
           else (case join_elements ns xs of
                   Inl e \<Rightarrow> Inl e
                 | Inr r \<Rightarrow> Inr (s @ '','' @ r))))"

section \<open>String operations used by the sources\<close>

text \<open>\<^verbatim>\<open>String.prototype.startsWith\<close>, \<^verbatim>\<open>endsWith\<close> and \<^verbatim>\<open>includes\<close>.\<close>

fun startsWith :: "string \<Rightarrow> string \<Rightarrow> bool" where
  "startsWith s [] = True"
| "startsWith [] (p # ps) = False"
| "startsWith (c # cs) (p # ps) = (c = p \<and> startsWith cs ps)"

definition endsWith :: "string \<Rightarrow> string \<Rightarrow> bool" where
  "endsWith s p = startsWith (rev s) (rev p)"

fun includes_str :: "string \<Rightarrow> string \<Rightarrow> bool" where
  "includes_str [] p = (p = [])"
| "includes_str (c # cs) p = (startsWith (c # cs) p \<or> includes_str cs p)"

text \<open>Decimal rendering of a natural number, as a template literal renders a status code.\<close>

definition digit_char :: "nat \<Rightarrow> char" where
  "digit_char d = ''0123456789'' ! d"

fun show_nat :: "nat \<Rightarrow> string" where
  "show_nat n = (if n < 10 then [digit_char n] else show_nat (n div 10) @ [digit_char (n mod 10)])"

declare show_nat.simps [simp del]

section \<open>The query catalog\<close>

text \<open>
  \<^verbatim>\<open>const QUERIES = { orders: `...`, products: `...`, customers: `...` }\<close>: the own
  entries of the object literal, in source order, with the template literals' text
  (line breaks and indentation included).
\<close>

definition QUERIES :: "(string \<times> string) list" where
  "QUERIES =
   [(''orders'',
     ''\<newline>'' @
     ''    query getOrders {\<newline>'' @
     ''      orders(first: 20, sortKey: PROCESSED_AT, reverse: true) {\<newline>'' @
     ''        edges {\<newline>'' @
     ''          node {\<newline>'' @
     ''            id\<newline>'' @
     ''            name\<newline>'' @
     ''            processedAt\<newline>'' @
     ''            displayFinancialStatus\<newline>'' @
     ''            displayFulfillmentStatus\<newline>'' @
     ''            totalPriceSet {\<newline>'' @
     ''              shopMoney {\<newline>'' @
     ''                amount\<newline>'' @
     ''                currencyCode\<newline>'' @
     ''              }\<newline>'' @
     ''            }\<newline>'' @
     ''            customer {\<newline>'' @
     ''              firstName\<newline>'' @
     ''              lastName\<newline>'' @
     ''              email\<newline>'' @
     ''            }\<newline>'' @
     ''          }\<newline>'' @
     ''        }\<newline>'' @
     ''      }\<newline>'' @
     ''    }\<newline>'' @
     ''  ''),
    (''products'',
     ''\<newline>'' @
     ''    query getProducts {\<newline>'' @
     ''      products(first: 20, sortKey: UPDATED_AT, reverse: true) {\<newline>'' @
     ''        edges {\<newline>'' @
     ''          node {\<newline>'' @
     ''            id\<newline>'' @
     ''            title\<newline>'' @
     ''            handle\<newline>'' @
     ''            status\<newline>'' @
     ''            totalInventory\<newline>'' @
     ''            updatedAt\<newline>'' @
     ''            featuredImage {\<newline>'' @
     ''              url\<newline>'' @
     ''            }\<newline>'' @
     ''            priceRangeV2 {\<newline>'' @
     ''              minVariantPrice {\<newline>'' @
     ''                amount\<newline>'' @
     ''                currencyCode\<newline>'' @
     ''              }\<newline>'' @
     ''            }\<newline>'' @
     ''          }\<newline>'' @
     ''        }\<newline>'' @
     ''      }\<newline>'' @
     ''    }\<newline>'' @
     ''  ''),
    (''customers'',
     ''\<newline>'' @
     ''    query getCustomers {\<newline>'' @
     ''      customers(first: 20, sortKey: UPDATED_AT, reverse: true) {\<newline>'' @
     ''        edges {\<newline>'' @
     ''          node {\<newline>'' @
     ''            id\<newline>'' @
     ''            displayName\<newline>'' @
     ''            email\<newline>'' @
     ''            numberOfOrders\<newline>'' @
     ''            amountSpent {\<newline>'' @
     ''              amount\<newline>'' @
     ''              currencyCode\<newline>'' @
     ''            }\<newline>'' @
     ''          }\<newline>'' @
     ''        }\<newline>'' @
     ''      }\<newline>'' @
     ''    }\<newline>'' @
     ''  '')]"

text \<open>
  \<^verbatim>\<open>QUERIES\<close> is an ordinary object, so a property read that finds no own entry goes
  on to \<^verbatim>\<open>Object.prototype\<close>. These are the names defined there (the standard methods
  and the legacy accessor helpers; the Deno runtime removes \<^verbatim>\<open>__proto__\<close>). Each of
  them is a function.
\<close>

definition Object_prototype_keys :: "string list" where
  "Object_prototype_keys =
   [''constructor'', ''hasOwnProperty'', ''isPrototypeOf'', ''propertyIsEnumerable'',
    ''toLocaleString'', ''toString'', ''valueOf'',
    ''__defineGetter__'', ''__defineSetter__'', ''__lookupGetter__'', ''__lookupSetter__'']"

text \<open>The value of \<^verbatim>\<open>QUERIES[key]\<close>: a query text, an inherited function, or undefined.\<close>

datatype query_value = QueryText string | Inherited string

definition QUERIES_get :: "string \<Rightarrow> query_value option" where
  "QUERIES_get k =
     (case map_of QUERIES k of
        Some q \<Rightarrow> Some (QueryText q)
      | None \<Rightarrow> (if k \<in> set Object_prototype_keys then Some (Inherited k) else None))"

text \<open>A query text is truthy when non-empty; a function is truthy.\<close>

fun truthy_query :: "query_value option \<Rightarrow> bool" where
  "truthy_query None = False"
| "truthy_query (Some (QueryText q)) = (q \<noteq> [])"
| "truthy_query (Some (Inherited k)) = True"


section \<open>Requests, responses and the environment of the proxy\<close>

text \<open>
  The incoming request: its method and the outcome of \<^verbatim>\<open>await req.json()\<close>, which
  throws when the body is not JSON.
\<close>

record request =
  http_method :: string
  json_body :: "exn + jsval"

text \<open>
  A \<^verbatim>\<open>Response\<close> of the handler. The body is the value handed to
  \<^verbatim>\<open>JSON.stringify\<close>, or \<open>None\<close> for the \<^verbatim>\<open>null\<close> body.
\<close>

record response =
  status :: nat
  headers :: "(string \<times> string) list"
  body :: "jsval option"

text \<open>
  The \<^verbatim>\<open>Response\<close> constructor of the Deno runtime: the default status is 200; a
  status outside 200..599 other than 101 throws a \<^verbatim>\<open>RangeError\<close>, and a body together
  with a null-body status (101, 204, 205, 304) throws a \<^verbatim>\<open>TypeError\<close>.
\<close>

definition null_body_status :: "nat \<Rightarrow> bool" where
  "null_body_status s = (s = 101 \<or> s = 204 \<or> s = 205 \<or> s = 304)"

definition new_Response :: "jsval option \<Rightarrow> nat option \<Rightarrow> (string \<times> string) list \<Rightarrow> exn + response" where
  "new_Response b st hs =
     (let s = (case st of None \<Rightarrow> 200 | Some s \<Rightarrow> s) in
      if (s < 200 \<or> 599 < s) \<and> s \<noteq> 101
      then Inl (RangeError ''The status provided is not equal to 101 and outside the range [200, 599]'')
      else if b \<noteq> None \<and> null_body_status s
      then Inl (TypeError ''Response with null body status cannot have body'')
      else Inr \<lparr>status = s, headers = hs, body = b\<rparr>)"

text \<open>The row of table \<^verbatim>\<open>stores\<close> that the handler selects.\<close>

record store =
  shopify_domain :: string
  api_access_token :: string

text \<open>The result \<^verbatim>\<open>{ data, error }\<close> of the \<^verbatim>\<open>.single()\<close> query.\<close>

record lookup_result =
  data :: "store option"
  error :: "string option"

text \<open>The arguments of \<^verbatim>\<open>fetch\<close>; the body is the value handed to \<^verbatim>\<open>JSON.stringify\<close>.\<close>

record fetch_request =
  url :: string
  fetch_method :: string
  fetch_headers :: "(string \<times> string) list"
  fetch_body :: jsval

text \<open>
  What \<^verbatim>\<open>fetch\<close> resolves to: \<^verbatim>\<open>status\<close>, \<^verbatim>\<open>statusText\<close>, and what
  \<^verbatim>\<open>text()\<close> and \<^verbatim>\<open>json()\<close> yield for the body (\<^verbatim>\<open>text()\<close> throws when the body
  cannot be read, \<^verbatim>\<open>json()\<close> also when it is not JSON).
  \<^verbatim>\<open>ok\<close> is true for a status in 200..299.
\<close>

record upstream_response =
  up_status :: nat
  up_statusText :: string
  up_text :: "exn + string"
  up_json :: "exn + jsval"

definition ok :: "upstream_response \<Rightarrow> bool" where
  "ok r = (200 \<le> up_status r \<and> up_status r \<le> 299)"

text \<open>
  Everything outside the handler. \<open>db_single\<close> is the lookup of a store id: \<open>Inl\<close> when
  \<^verbatim>\<open>createClient\<close> throws (a missing URL or key), which happens before any query is
  sent; otherwise the result of the \<^verbatim>\<open>.single()\<close> query, which reports its own failures
  in \<^verbatim>\<open>error\<close> and does not throw. \<open>fetch\<close> is the upstream call, which throws on a
  transport failure. \<open>number_text\<close> is the runtime's rendering of numbers.
\<close>

record env =
  db_single :: "jsval \<Rightarrow> exn + lookup_result"
  fetch :: "fetch_request \<Rightarrow> exn + upstream_response"
  number_text :: "rat \<Rightarrow> string"

text \<open>
  The effects of one invocation, in order: a query sent to the table \<^verbatim>\<open>stores\<close>, a
  call sent upstream.
\<close>

datatype event = StoreLookup jsval | UpstreamCall fetch_request

section \<open>The handler\<close>

definition corsHeaders :: "(string \<times> string) list" where
  "corsHeaders =
   [(''Access-Control-Allow-Origin'', ''*''),
    (''Access-Control-Allow-Headers'', ''authorization, x-client-info, apikey, content-type'')]"

text \<open>\<^verbatim>\<open>{ ...corsHeaders, 'Content-Type': 'application/json' }\<close>\<close>

definition json_headers :: "(string \<times> string) list" where
  "json_headers = corsHeaders @ [(''Content-Type'', ''application/json'')]"

text \<open>\<^verbatim>\<open>JSON.stringify({ query: QUERIES[data_type] })\<close>: a function-valued entry is left out.\<close>

fun query_body :: "query_value option \<Rightarrow> jsval" where
  "query_body (Some (QueryText q)) = JObj [(''query'', JStr q)]"
| "query_body _ = JObj []"

text \<open>
  Lines 137--195: the upstream call and the relay of its outcome. \<open>tr\<close> is the trace of
  the effects so far.
\<close>

definition call_upstream :: "env \<Rightarrow> store \<Rightarrow> string \<Rightarrow> event list \<Rightarrow> (exn + response) \<times> event list" where
  "call_upstream env st key tr =
     (let shopifyUrl = ''https://'' @ shopify_domain st @ ''/admin/api/2024-07/graphql.json'';
          rq = \<lparr>url = shopifyUrl, fetch_method = ''POST'',
                fetch_headers = [(''Content-Type'', ''application/json''),
                                 (''X-Shopify-Access-Token'', api_access_token st)],
                fetch_body = query_body (QUERIES_get key)\<rparr>;
          tr' = tr @ [UpstreamCall rq]
      in case fetch env rq of
           Inl e \<Rightarrow> (Inl e, tr')
         | Inr shopifyResponse \<Rightarrow>
             if \<not> ok shopifyResponse
             then (case up_text shopifyResponse of
                     Inl e \<Rightarrow> (Inl e, tr')
                   | Inr errorText \<Rightarrow>
                       (new_Response
                          (Some (JObj [(''error'', JStr ''Shopify API request failed''),
                                       (''details'',
                                        JStr (show_nat (up_status shopifyResponse) @ '': '' @
                                              up_statusText shopifyResponse)),
                                       (''shopifyError'', JStr errorText)]))
                          (Some (up_status shopifyResponse)) json_headers, tr'))
             else (case up_json shopifyResponse of
                     Inl e \<Rightarrow> (Inl e, tr')
                   | Inr shopifyData \<Rightarrow>
                       (case get_prop shopifyData ''errors'' of
                          Inl e \<Rightarrow> (Inl e, tr')
                        | Inr errors \<Rightarrow>
                            if truthy errors
                            then (new_Response
                                    (Some (JObj [(''error'', JStr ''Shopify GraphQL errors''),
                                                 (''details'', errors)]))
                                    (Some 400) json_headers, tr')
                            else (new_Response (Some shopifyData) None json_headers, tr'))))"

text \<open>Lines 113--135: the store lookup.\<close>

definition resolve_store :: "env \<Rightarrow> jsval \<Rightarrow> string \<Rightarrow> (exn + response) \<times> event list" where
  "resolve_store env store_id key =
     (let tr = [StoreLookup store_id]
      in case db_single env store_id of
           Inl e \<Rightarrow> (Inl e, [])
         | Inr r \<Rightarrow>
             (case data r of
                None \<Rightarrow>
                  (new_Response (Some (JObj [(''error'', JStr ''Store not found'')]))
                     (Some 404) json_headers, tr)
              | Some st \<Rightarrow>
                  if error r \<noteq> None
                  then (new_Response (Some (JObj [(''error'', JStr ''Store not found'')]))
                          (Some 404) json_headers, tr)
                  else call_upstream env st key tr))"

text \<open>Lines 88--196: the body of the \<^verbatim>\<open>try\<close> block, starting with the validation.\<close>

definition try_block :: "env \<Rightarrow> request \<Rightarrow> (exn + response) \<times> event list" where
  "try_block env req =
     (case json_body req of
        Inl e \<Rightarrow> (Inl e, [])
      | Inr parsed \<Rightarrow>
          (case get_prop parsed ''store_id'' of
             Inl e \<Rightarrow> (Inl e, [])
           | Inr store_id \<Rightarrow>
               (case get_prop parsed ''data_type'' of
                  Inl e \<Rightarrow> (Inl e, [])
                | Inr data_type \<Rightarrow>
                    if \<not> truthy store_id \<or> \<not> truthy data_type
                    then (new_Response
                            (Some (JObj [(''error'', JStr ''Missing store_id or data_type'')]))
                            (Some 400) json_headers, [])
                    else (case ToString (number_text env) data_type of
                            Inl e \<Rightarrow> (Inl e, [])
                          | Inr key \<Rightarrow>
                              if \<not> truthy_query (QUERIES_get key)
                              then (new_Response
                                      (Some (JObj [(''error'',
                                         JStr ''Invalid data_type. Must be: orders, products, or customers'')]))
                                      (Some 400) json_headers, [])
                              else resolve_store env store_id key))))"

text \<open>
  Lines 82--210: the handler. A preflight request is answered before the \<^verbatim>\<open>try\<close>
  block, by \<^verbatim>\<open>new Response(null, { headers: corsHeaders })\<close> (status 200, no body: the
  constructor does not throw); whatever the block throws is turned into the 500
  response of the \<^verbatim>\<open>catch\<close> clause. The result is the response and the trace of
  effects. Console logging is left out.
\<close>

definition serve :: "env \<Rightarrow> request \<Rightarrow> response \<times> event list" where
  "serve env req =
     (if http_method req = ''OPTIONS''
      then (\<lparr>status = 200, headers = corsHeaders, body = None\<rparr>, [])
      else (case try_block env req of
              (Inr resp, tr) \<Rightarrow> (resp, tr)
            | (Inl e, tr) \<Rightarrow>
                (\<lparr>status = 500, headers = json_headers,
                  body = Some (JObj [(''error'', JStr ''Internal server error''),
                                     (''details'', JStr (message e))])\<rparr>, tr)))"

section \<open>The Store Manager's domain normalization\<close>

text \<open>
  \<^verbatim>\<open>handleSubmit\<close> of the Store Manager component prepares the domain it stores:
  \<^verbatim>\<open>
  let domain = formData.shopify_domain;
  if (!domain.includes('.myshopify.com')) {
    domain = domain.replace(/^https?:\/\//, '').replace(/\/$/, '');
    if (!domain.endsWith('.myshopify.com')) {
      domain = `${domain}.myshopify.com`;
    }
  }
  \<close>
  The first replacement removes a leading \<^verbatim>\<open>http://\<close> or \<^verbatim>\<open>https://\<close>, the second one
  slash at the very end of the string.
\<close>

definition strip_protocol :: "string \<Rightarrow> string" where
  "strip_protocol d =
     (if startsWith d ''https://'' then drop 8 d
      else if startsWith d ''http://'' then drop 7 d
      else d)"

definition strip_trailing_slash :: "string \<Rightarrow> string" where
  "strip_trailing_slash d = (if endsWith d ''/'' then butlast d else d)"

definition handleSubmit_domain :: "string \<Rightarrow> string" where
  "handleSubmit_domain shopify_domain_input =
     (if \<not> includes_str shopify_domain_input ''.myshopify.com''
      then (let domain = strip_trailing_slash (strip_protocol shopify_domain_input)
            in if \<not> endsWith domain ''.myshopify.com''
               then domain @ ''.myshopify.com''
               else domain)
      else shopify_domain_input)"

section \<open>The row normalizer of the Data Viewer\<close>

text \<open>
  \<^verbatim>\<open>processData(nodes, dataType)\<close> of \<^verbatim>\<open>DataViewer.tsx\<close> maps each upstream node to a
  row. A node is typed \<^verbatim>\<open>{ id: string; [key: string]: any }\<close>: whatever the parsed
  response holds, so nodes and all their properties are values of type \<open>jsval\<close>.
  The selector is one of three strings.
\<close>

datatype DataType = Orders | Products | Customers

text \<open>
  A JavaScript number: \<^verbatim>\<open>NaN\<close>, an infinity, or a finite double (a rational number;
  the two zeros are not told apart, and \<^verbatim>\<open>toFixed\<close> renders both the same).
\<close>

datatype jsnum = NaN | PosInfinity | NegInfinity | Finite rat

text \<open>
  What the browser supplies: the number that \<^verbatim>\<open>parseFloat\<close> reads from a string
  that starts with a decimal literal (the nearest double), the rendering of a number
  by \<^verbatim>\<open>Number.prototype.toString\<close>, and \<^verbatim>\<open>new Date(v).toLocaleDateString()\<close> for a
  primitive value \<open>v\<close>, in the user's locale and time zone.
\<close>

record runtime =
  parseFloat_string :: "string \<Rightarrow> jsnum"
  Number_toString :: "rat \<Rightarrow> string"
  toLocaleDateString :: "jsval \<Rightarrow> string"

text \<open>Sequencing of evaluations that may throw.\<close>

fun and_then :: "exn + 'a \<Rightarrow> ('a \<Rightarrow> exn + 'b) \<Rightarrow> exn + 'b" where
  "and_then (Inl e) f = Inl e"
| "and_then (Inr x) f = f x"

text \<open>
  \<^verbatim>\<open>x?.k\<close> yields \<^verbatim>\<open>undefined\<close> where \<^verbatim>\<open>x.k\<close> throws, and is \<^verbatim>\<open>x.k\<close> otherwise
  (for the property names of this component, none of which a built-in prototype
  defines). \<^verbatim>\<open>x.a.b\<close> reads two properties in turn. \<^verbatim>\<open>x || y\<close> is \<open>x\<close> when \<open>x\<close>
  is truthy and \<open>y\<close> otherwise.
\<close>

fun opt_prop :: "jsval \<Rightarrow> string \<Rightarrow> jsval" where
  "opt_prop (JObj kvs) k = (case map_of kvs k of None \<Rightarrow> JUndefined | Some v \<Rightarrow> v)"
| "opt_prop v k = JUndefined"

definition prop2 :: "jsval \<Rightarrow> string \<Rightarrow> string \<Rightarrow> exn + jsval" where
  "prop2 x a b = and_then (get_prop x a) (\<lambda>y. get_prop y b)"

definition or_else :: "jsval \<Rightarrow> jsval \<Rightarrow> jsval" where
  "or_else x y = (if truthy x then x else y)"

text \<open>\<^verbatim>\<open>String.prototype.trim\<close>, for the white space and line terminators below 256.\<close>

definition is_space :: "char \<Rightarrow> bool" where
  "is_space c = (c \<in> set [CHR 0x09, CHR 0x0A, CHR 0x0B, CHR 0x0C, CHR 0x0D, CHR 0x20, CHR 0xA0])"

definition trim :: "string \<Rightarrow> string" where
  "trim s = rev (dropWhile is_space (rev (dropWhile is_space s)))"

definition is_digit :: "char \<Rightarrow> bool" where
  "is_digit c = (c \<in> set ''0123456789'')"

text \<open>
  \<^verbatim>\<open>parseFloat(v)\<close> converts \<open>v\<close> to a string, skips leading white space and reads
  the longest prefix that is a decimal literal: an optional sign followed by
  \<^verbatim>\<open>Infinity\<close>, by a digit, or by a point and a digit. Without such a prefix the
  result is \<^verbatim>\<open>NaN\<close>.
\<close>

definition numeric_start :: "string \<Rightarrow> bool" where
  "numeric_start s =
     (let t = dropWhile is_space s;
          u = (if startsWith t ''+'' \<or> startsWith t ''-'' then drop 1 t else t)
      in startsWith u ''Infinity'' \<or>
         (case u of
            [] \<Rightarrow> False
          | c # cs \<Rightarrow>
              is_digit c \<or>
              (c = CHR ''.'' \<and> (case cs of [] \<Rightarrow> False | d # ds \<Rightarrow> is_digit d))))"

definition parseFloat :: "runtime \<Rightarrow> jsval \<Rightarrow> exn + jsnum" where
  "parseFloat rt v =
     and_then (ToString (Number_toString rt) v) (\<lambda>s.
       Inr (if numeric_start s then parseFloat_string rt s else NaN))"

text \<open>
  \<^verbatim>\<open>Number.prototype.toFixed(2)\<close>: a number that is not finite renders as its name;
  a magnitude of at least \<open>10\<^sup>2\<^sup>1\<close> renders as \<^verbatim>\<open>toString\<close> does; otherwise the
  integer \<open>n\<close> nearest to a hundred times the magnitude (the larger one of two) is
  written with a point before its last two digits, padded with zeros to three digits.
\<close>

definition fixed2_digits :: "nat \<Rightarrow> string" where
  "fixed2_digits n =
     (let m = show_nat n;
          m' = (if length m \<le> 2 then replicate (3 - length m) (CHR ''0'') @ m else m);
          k = length m'
      in take (k - 2) m' @ ''.'' @ drop (k - 2) m')"

fun toFixed2 :: "runtime \<Rightarrow> jsnum \<Rightarrow> string" where
  "toFixed2 rt NaN = ''NaN''"
| "toFixed2 rt PosInfinity = ''Infinity''"
| "toFixed2 rt NegInfinity = ''-Infinity''"
| "toFixed2 rt (Finite x) =
     (let s = (if x < 0 then ''-'' else []);
          y = \<bar>x\<bar>
      in if 10 ^ 21 \<le> y then s @ Number_toString rt y
         else s @ fixed2_digits (nat \<lfloor>y * 100 + 1 / 2\<rfloor>))"

text \<open>
  \<^verbatim>\<open>new Date(v).toLocaleDateString()\<close>: an object or array is converted to a primitive
  first, which for parsed JSON is its string conversion (and throws where that
  throws); the date of a primitive is the browser's.
\<close>

fun date_string :: "runtime \<Rightarrow> jsval \<Rightarrow> exn + string" where
  "date_string rt (JObj kvs) =
     and_then (ToString (Number_toString rt) (JObj kvs)) (\<lambda>s.
       Inr (toLocaleDateString rt (JStr s)))"
| "date_string rt (JArr xs) =
     and_then (ToString (Number_toString rt) (JArr xs)) (\<lambda>s.
       Inr (toLocaleDateString rt (JStr s)))"
| "date_string rt v = Inr (toLocaleDateString rt v)"

text \<open>
  The object literal \<^verbatim>\<open>{ ...node, k: v, ... }\<close>: the spread copies the own properties
  of an object, the elements of an array and the characters of a string under their
  indices, and nothing of any other value; a property set afterwards replaces the
  value of a property of that name or is added at the end.
\<close>

definition indexed :: "jsval list \<Rightarrow> (string \<times> jsval) list" where
  "indexed xs = zip (map show_nat [0..<length xs]) xs"

fun spread :: "jsval \<Rightarrow> (string \<times> jsval) list" where
  "spread (JObj kvs) = kvs"
| "spread (JArr xs) = indexed xs"
| "spread (JStr s) = indexed (map (\<lambda>c. JStr [c]) s)"
| "spread v = []"

fun set_prop :: "string \<Rightarrow> jsval \<Rightarrow> (string \<times> jsval) list \<Rightarrow> (string \<times> jsval) list" where
  "set_prop k v [] = [(k, v)]"
| "set_prop k v ((k', v') # kvs) =
     (if k' = k then (k, v) # kvs else (k', v') # set_prop k v kvs)"

text \<open>
  \<^verbatim>\<open>`${m.currencyCode} ${parseFloat(m.amount).toFixed(2)}`\<close>, where \<open>path\<close> is the
  evaluation of the property path \<open>m\<close> that leads to the money pair. The template
  converts the currency code to a string before the amount is read.
\<close>

definition money_text :: "runtime \<Rightarrow> exn + jsval \<Rightarrow> exn + jsval" where
  "money_text rt path =
     and_then (and_then path (\<lambda>m. get_prop m ''currencyCode'')) (\<lambda>code.
     and_then (ToString (Number_toString rt) code) (\<lambda>codeText.
     and_then (and_then path (\<lambda>m. get_prop m ''amount'')) (\<lambda>amt.
     and_then (parseFloat rt amt) (\<lambda>x.
       Inr (JStr (codeText @ '' '' @ toFixed2 rt x))))))"

text \<open>
  \<^verbatim>\<open>node.k ? new Date(node.k).toLocaleDateString() : 'N/A'\<close> for a timestamp
  property \<open>k\<close>.
\<close>

definition date_or_NA :: "runtime \<Rightarrow> jsval \<Rightarrow> string \<Rightarrow> exn + jsval" where
  "date_or_NA rt node k =
     and_then (get_prop node k) (\<lambda>t.
       if truthy t
       then and_then (get_prop node k) (\<lambda>t'.
            and_then (date_string rt t') (\<lambda>s. Inr (JStr s)))
       else Inr (JStr ''N/A''))"

text \<open>
  The derived properties of the three branches of the \<^verbatim>\<open>switch\<close>, as the source
  writes them:
  \<^verbatim>\<open>
  totalPrice: node.totalPriceSet?.shopMoney
    ? `${node.totalPriceSet.shopMoney.currencyCode} ${parseFloat(node.totalPriceSet.shopMoney.amount).toFixed(2)}`
    : 'N/A',
  customerName: node.customer
    ? `${node.customer.firstName || ''} ${node.customer.lastName || ''}`.trim() || node.customer.email || 'Guest'
    : 'Guest',
  price: node.priceRangeV2?.minVariantPrice ? `...` : 'N/A',
  amountSpent: node.amountSpent ? `...` : 'N/A'
  \<close>
\<close>

definition order_totalPrice :: "runtime \<Rightarrow> jsval \<Rightarrow> exn + jsval" where
  "order_totalPrice rt node =
     and_then (get_prop node ''totalPriceSet'') (\<lambda>tps.
       if truthy (opt_prop tps ''shopMoney'')
       then money_text rt (prop2 node ''totalPriceSet'' ''shopMoney'')
       else Inr (JStr ''N/A''))"

definition order_customerName :: "runtime \<Rightarrow> jsval \<Rightarrow> exn + jsval" where
  "order_customerName rt node =
     and_then (get_prop node ''customer'') (\<lambda>c.
       if truthy c
       then and_then (prop2 node ''customer'' ''firstName'') (\<lambda>first.
            and_then (ToString (Number_toString rt) (or_else first (JStr []))) (\<lambda>firstText.
            and_then (prop2 node ''customer'' ''lastName'') (\<lambda>last.
            and_then (ToString (Number_toString rt) (or_else last (JStr []))) (\<lambda>lastText.
              let full = trim (firstText @ '' '' @ lastText)
              in if full \<noteq> [] then Inr (JStr full)
                 else and_then (prop2 node ''customer'' ''email'') (\<lambda>mail.
                        Inr (or_else mail (JStr ''Guest'')))))))
       else Inr (JStr ''Guest''))"

definition product_price :: "runtime \<Rightarrow> jsval \<Rightarrow> exn + jsval" where
  "product_price rt node =
     and_then (get_prop node ''priceRangeV2'') (\<lambda>range.
       if truthy (opt_prop range ''minVariantPrice'')
       then money_text rt (prop2 node ''priceRangeV2'' ''minVariantPrice'')
       else Inr (JStr ''N/A''))"

definition customer_amountSpent :: "runtime \<Rightarrow> jsval \<Rightarrow> exn + jsval" where
  "customer_amountSpent rt node =
     and_then (get_prop node ''amountSpent'') (\<lambda>spent.
       if truthy spent
       then money_text rt (get_prop node ''amountSpent'')
       else Inr (JStr ''N/A''))"

text \<open>
  The callback of \<^verbatim>\<open>nodes.map\<close>: the row of one node. The \<^verbatim>\<open>default\<close> branch of the
  \<^verbatim>\<open>switch\<close> is not reachable for a value of the type \<^verbatim>\<open>DataType\<close>.
\<close>

fun process_node :: "runtime \<Rightarrow> DataType \<Rightarrow> jsval \<Rightarrow> exn + jsval" where
  "process_node rt Orders node =
     and_then (order_totalPrice rt node) (\<lambda>totalPrice.
     and_then (order_customerName rt node) (\<lambda>customerName.
     and_then (date_or_NA rt node ''processedAt'') (\<lambda>processed.
       Inr (JObj (set_prop ''processedAt'' processed
                 (set_prop ''customerName'' customerName
                 (set_prop ''totalPrice'' totalPrice (spread node))))))))"
| "process_node rt Products node =
     and_then (product_price rt node) (\<lambda>price.
     and_then (date_or_NA rt node ''updatedAt'') (\<lambda>updated.
       Inr (JObj (set_prop ''updatedAt'' updated
                 (set_prop ''price'' price (spread node))))))"
| "process_node rt Customers node =
     and_then (customer_amountSpent rt node) (\<lambda>spent.
       Inr (JObj (set_prop ''amountSpent'' spent (spread node))))"

text \<open>\<^verbatim>\<open>nodes.map(...)\<close>: the rows in order; a throw in any call ends the whole.\<close>

fun processData :: "runtime \<Rightarrow> jsval list \<Rightarrow> DataType \<Rightarrow> exn + jsval list" where
  "processData rt [] dataType = Inr []"
| "processData rt (n # ns) dataType =
     and_then (process_node rt dataType n) (\<lambda>r.
     and_then (processData rt ns dataType) (\<lambda>rs. Inr (r # rs)))"

section \<open>Notions used to state the properties of the row normalizer\<close>

text \<open>
  A rendering with exactly two decimal places: an optional minus sign, at least one
  digit, a point, two digits.
\<close>

definition two_decimals :: "string \<Rightarrow> bool" where
  "two_decimals s =
     (let t = (if startsWith s ''-'' then drop 1 s else s);
          k = length t
      in 4 \<le> k \<and> list_all is_digit (take (k - 3) t) \<and> t ! (k - 3) = CHR ''.'' \<and>
         list_all is_digit (drop (k - 2) t))"

text \<open>
  A value is plain when no object in it has an own property named \<^verbatim>\<open>toString\<close>:
  these are the values whose conversion to a string does not throw. A node is safe
  when it is plain and neither \<^verbatim>\<open>undefined\<close> nor \<^verbatim>\<open>null\<close>. Every node whose
  properties are missing, \<^verbatim>\<open>null\<close>, or hold what the queries of the catalog select
  is safe.
\<close>

fun plain :: "jsval \<Rightarrow> bool" and plain_all :: "jsval list \<Rightarrow> bool" where
  "plain (JObj kvs) = (''toString'' \<notin> set (map fst kvs) \<and> plain_all (map snd kvs))"
| "plain (JArr xs) = plain_all xs"
| "plain v = True"
| "plain_all [] = True"
| "plain_all (x # xs) = (plain x \<and> plain_all xs)"

definition safe_node :: "jsval \<Rightarrow> bool" where
  "safe_node n = (n \<noteq> JUndefined \<and> n \<noteq> JNull \<and> plain n)"

text \<open>
  The string, the number and the date that a plain value converts to (the conversions
  above, where they do not throw).
\<close>

definition text_of :: "runtime \<Rightarrow> jsval \<Rightarrow> string" where
  "text_of rt v = (case ToString (Number_toString rt) v of Inr s \<Rightarrow> s | Inl e \<Rightarrow> [])"

definition number_of :: "runtime \<Rightarrow> jsval \<Rightarrow> jsnum" where
  "number_of rt v = (case parseFloat rt v of Inr x \<Rightarrow> x | Inl e \<Rightarrow> NaN)"

definition date_of :: "runtime \<Rightarrow> jsval \<Rightarrow> string" where
  "date_of rt v = (case date_string rt v of Inr s \<Rightarrow> s | Inl e \<Rightarrow> [])"

text \<open>
  The specification's sentence that every accessor degrades to a fallback string, for
  a node \<open>n\<close> and its row \<open>r\<close>: a derived property whose source is missing, \<^verbatim>\<open>null\<close>
  or otherwise falsy is the literal \<^verbatim>\<open>N/A\<close> (\<^verbatim>\<open>Guest\<close> for the customer name), and
  the derived prices and dates are strings in every case.
\<close>

fun is_string :: "jsval \<Rightarrow> bool" where
  "is_string (JStr s) = True"
| "is_string v = False"

fun fallback_strings :: "DataType \<Rightarrow> jsval \<Rightarrow> jsval \<Rightarrow> bool" where
  "fallback_strings Orders n r =
     ((\<not> truthy (opt_prop (opt_prop n ''totalPriceSet'') ''shopMoney'') \<longrightarrow>
         opt_prop r ''totalPrice'' = JStr ''N/A'') \<and>
      (\<not> truthy (opt_prop n ''customer'') \<longrightarrow> opt_prop r ''customerName'' = JStr ''Guest'') \<and>
      (\<not> truthy (opt_prop n ''processedAt'') \<longrightarrow> opt_prop r ''processedAt'' = JStr ''N/A'') \<and>
      is_string (opt_prop r ''totalPrice'') \<and> is_string (opt_prop r ''processedAt''))"
| "fallback_strings Products n r =
     ((\<not> truthy (opt_prop (opt_prop n ''priceRangeV2'') ''minVariantPrice'') \<longrightarrow>
         opt_prop r ''price'' = JStr ''N/A'') \<and>
      (\<not> truthy (opt_prop n ''updatedAt'') \<longrightarrow> opt_prop r ''updatedAt'' = JStr ''N/A'') \<and>
      is_string (opt_prop r ''price'') \<and> is_string (opt_prop r ''updatedAt''))"
| "fallback_strings Customers n r =
     ((\<not> truthy (opt_prop n ''amountSpent'') \<longrightarrow> opt_prop r ''amountSpent'' = JStr ''N/A'') \<and>
      is_string (opt_prop r ''amountSpent''))"

section \<open>Example environments and inputs\<close>

text \<open>
  Concrete stores, databases, upstream replies and requests, at which the theorems
  below are instantiated.
\<close>

definition example_store :: store where
  "example_store =
     \<lparr>shopify_domain = ''shop.myshopify.com'', api_access_token = ''shpat_example''\<rparr>"

text \<open>A database without any matching row; the upstream is never reached.\<close>

definition env_no_store :: env where
  "env_no_store =
     \<lparr>db_single = (\<lambda>store_id. Inr \<lparr>data = None, error = Some ''no rows returned''\<rparr>),
      fetch = (\<lambda>rq. Inl (ThrownError ''network unreachable'')),
      number_text = (\<lambda>x. ''0'')\<rparr>"

text \<open>A database that holds the example store, and an upstream that replies with \<open>up\<close>.\<close>

definition env_upstream :: "upstream_response \<Rightarrow> env" where
  "env_upstream up =
     \<lparr>db_single = (\<lambda>store_id. Inr \<lparr>data = Some example_store, error = None\<rparr>),
      fetch = (\<lambda>rq. Inr up),
      number_text = (\<lambda>x. ''0'')\<rparr>"

definition orders_request :: request where
  "orders_request =
     \<lparr>http_method = ''POST'',
      json_body = Inr (JObj [(''store_id'', JNum 1), (''data_type'', JStr ''orders'')])\<rparr>"

text \<open>The call that the handler issues for store \<open>st\<close> and query text \<open>q\<close>.\<close>

definition upstream_request :: "store \<Rightarrow> string \<Rightarrow> fetch_request" where
  "upstream_request st q =
     \<lparr>url = ''https://'' @ shopify_domain st @ ''/admin/api/2024-07/graphql.json'',
      fetch_method = ''POST'',
      fetch_headers = [(''Content-Type'', ''application/json''),
                       (''X-Shopify-Access-Token'', api_access_token st)],
      fetch_body = JObj [(''query'', JStr q)]\<rparr>"

definition upstream_401 :: upstream_response where
  "upstream_401 =
     \<lparr>up_status = 401, up_statusText = ''Unauthorized'',
      up_text = Inr ''[API] Invalid API key or access token'',
      up_json = Inl (ThrownError ''Unexpected token in JSON'')\<rparr>"

definition upstream_999 :: upstream_response where
  "upstream_999 =
     \<lparr>up_status = 999, up_statusText = ''Request denied'',
      up_text = Inr ''denied'',
      up_json = Inl (ThrownError ''Unexpected token in JSON'')\<rparr>"

definition upstream_graphql_errors :: upstream_response where
  "upstream_graphql_errors =
     \<lparr>up_status = 200, up_statusText = ''OK'',
      up_text = Inr ''(the serialised payload)'',
      up_json = Inr (JObj [(''errors'',
                  JArr [JObj [(''message'', JStr ''Field does not exist'')]])])\<rparr>"

text \<open>
  Two runtimes that agree with a browser in time zone UTC on the strings used below,
  one with the locale \<^verbatim>\<open>en-US\<close>, one with the locale \<^verbatim>\<open>de-DE\<close>.
\<close>

definition rt_example :: runtime where
  "rt_example =
     \<lparr>parseFloat_string =
        (\<lambda>s. if s = ''12.5'' then Finite (25 / 2)
             else if s = ''1000000000000000000000'' then Finite (10 ^ 21)
             else NaN),
      Number_toString = (\<lambda>x. if x = 10 ^ 21 then ''1e+21'' else ''0''),
      toLocaleDateString =
        (\<lambda>v. if v = JStr ''2024-01-02T10:00:00Z'' then ''1/2/2024'' else ''Invalid Date'')\<rparr>"

definition rt_german :: runtime where
  "rt_german =
     \<lparr>parseFloat_string =
        (\<lambda>s. if s = ''12.5'' then Finite (25 / 2)
             else if s = ''1000000000000000000000'' then Finite (10 ^ 21)
             else NaN),
      Number_toString = (\<lambda>x. if x = 10 ^ 21 then ''1e+21'' else ''0''),
      toLocaleDateString =
        (\<lambda>v. if v = JStr ''2024-01-02T10:00:00Z'' then ''2.1.2024'' else ''Invalid Date'')\<rparr>"

text \<open>An order of 12.5 USD by Ada Lovelace, and a guest order without price and date.\<close>

definition example_order :: jsval where
  "example_order =
     JObj [(''id'', JStr ''gid://shopify/Order/1''),
           (''name'', JStr ''#1001''),
           (''processedAt'', JStr ''2024-01-02T10:00:00Z''),
           (''totalPriceSet'',
            JObj [(''shopMoney'',
                   JObj [(''amount'', JStr ''12.5''), (''currencyCode'', JStr ''USD'')])]),
           (''customer'',
            JObj [(''firstName'', JStr ''Ada''), (''lastName'', JStr ''Lovelace''),
                  (''email'', JStr ''ada@example.com'')])]"

definition guest_order :: jsval where
  "guest_order =
     JObj [(''id'', JStr ''gid://shopify/Order/2''),
           (''processedAt'', JNull),
           (''totalPriceSet'', JNull),
           (''customer'', JNull)]"

text \<open>
  An order whose money pair lacks the amount, one with an amount of \<open>10\<^sup>2\<^sup>1\<close>, and one
  whose amount is an object with an own property \<^verbatim>\<open>toString\<close>.
\<close>

definition order_without_amount :: jsval where
  "order_without_amount =
     JObj [(''id'', JStr ''gid://shopify/Order/3''),
           (''totalPriceSet'',
            JObj [(''shopMoney'', JObj [(''currencyCode'', JStr ''USD'')])])]"

definition order_huge_amount :: jsval where
  "order_huge_amount =
     JObj [(''id'', JStr ''gid://shopify/Order/4''),
           (''totalPriceSet'',
            JObj [(''shopMoney'',
                   JObj [(''amount'', JStr ''1000000000000000000000''),
                         (''currencyCode'', JStr ''USD'')])])]"

definition hostile_order :: jsval where
  "hostile_order =
     JObj [(''id'', JStr ''gid://shopify/Order/5''),
           (''totalPriceSet'',
            JObj [(''shopMoney'',
                   JObj [(''amount'', JObj [(''toString'', JNum 1)]),
                         (''currencyCode'', JStr ''USD'')])])]"

text \<open>The rows of the first two orders, and the row of the first in the German locale.\<close>

definition example_order_row :: jsval where
  "example_order_row =
     JObj [(''id'', JStr ''gid://shopify/Order/1''),
           (''name'', JStr ''#1001''),
           (''processedAt'', JStr ''1/2/2024''),
           (''totalPriceSet'',
            JObj [(''shopMoney'',
                   JObj [(''amount'', JStr ''12.5''), (''currencyCode'', JStr ''USD'')])]),
           (''customer'',
            JObj [(''firstName'', JStr ''Ada''), (''lastName'', JStr ''Lovelace''),
                  (''email'', JStr ''ada@example.com'')]),
           (''totalPrice'', JStr ''USD 12.50''),
           (''customerName'', JStr ''Ada Lovelace'')]"

definition guest_order_row :: jsval where
  "guest_order_row =
     JObj [(''id'', JStr ''gid://shopify/Order/2''),
           (''processedAt'', JStr ''N/A''),
           (''totalPriceSet'', JNull),
           (''customer'', JNull),
           (''totalPrice'', JStr ''N/A''),
           (''customerName'', JStr ''Guest'')]"

definition example_order_row_german :: jsval where
  "example_order_row_german =
     JObj [(''id'', JStr ''gid://shopify/Order/1''),
           (''name'', JStr ''#1001''),
           (''processedAt'', JStr ''2.1.2024''),
           (''totalPriceSet'',
            JObj [(''shopMoney'',
                   JObj [(''amount'', JStr ''12.5''), (''currencyCode'', JStr ''USD'')])]),
           (''customer'',
            JObj [(''firstName'', JStr ''Ada''), (''lastName'', JStr ''Lovelace''),
                  (''email'', JStr ''ada@example.com'')]),
           (''totalPrice'', JStr ''USD 12.50''),
           (''customerName'', JStr ''Ada Lovelace'')]"

section \<open>Properties of the proxy function\<close>

subsection \<open>Auxiliary facts\<close>

lemma falsy_values:
  "\<not> truthy v \<longleftrightarrow>
     v = JUndefined \<or> v = JNull \<or> v = JBool False \<or> v = JNum 0 \<or> v = JStr []"
  by (cases v) auto

lemma new_Response_headers: "new_Response b st hs = Inr r \<Longrightarrow> headers r = hs"
  by (auto simp: new_Response_def Let_def split: if_splits)

lemma new_Response_fixed:
  "200 \<le> s \<Longrightarrow> s \<le> 599 \<Longrightarrow> \<not> null_body_status s \<Longrightarrow>
   new_Response b (Some s) hs = Inr \<lparr>status = s, headers = hs, body = b\<rparr>"
  by (simp add: new_Response_def)

lemma call_upstream_headers:
  "fst (call_upstream env st key tr) = Inr r \<Longrightarrow> headers r = json_headers"
  by (auto simp: call_upstream_def Let_def dest: new_Response_headers
      split: sum.splits if_splits)

lemma resolve_store_headers:
  "fst (resolve_store env sid key) = Inr r \<Longrightarrow> headers r = json_headers"
  by (auto simp: resolve_store_def Let_def dest: new_Response_headers call_upstream_headers
      split: sum.splits option.splits if_splits)

lemma try_block_headers:
  "fst (try_block env req) = Inr r \<Longrightarrow> headers r = json_headers"
  by (auto simp: try_block_def dest: new_Response_headers resolve_store_headers
      split: sum.splits if_splits)

lemma serve_headers:
  "http_method req \<noteq> ''OPTIONS'' \<Longrightarrow> headers (fst (serve env req)) = json_headers"
  using try_block_headers [of env req]
  by (auto simp: serve_def split: sum.splits prod.splits)

lemma QUERIES_get_selector:
  "map_of QUERIES dt = Some q \<Longrightarrow> QUERIES_get dt = Some (QueryText q)"
  by (simp add: QUERIES_get_def)

lemma QUERIES_nonempty: "map_of QUERIES dt = Some q \<Longrightarrow> q \<noteq> []"
  by (auto simp: QUERIES_def split: if_splits)

lemma selector_nonempty: "map_of QUERIES dt = Some q \<Longrightarrow> dt \<noteq> []"
  by (auto simp: QUERIES_def split: if_splits)

text \<open>
  A request that passes the validation: a JSON object with a truthy \<^verbatim>\<open>store_id\<close> and
  one of the three selectors as \<^verbatim>\<open>data_type\<close>. The \<^verbatim>\<open>try\<close> block then is the store
  lookup.
\<close>

lemma try_block_valid:
  assumes "json_body req = Inr (JObj kvs)"
    and "map_of kvs ''store_id'' = Some sid" and "truthy sid"
    and "map_of kvs ''data_type'' = Some (JStr dt)" and "map_of QUERIES dt = Some q"
  shows "try_block env req = resolve_store env sid dt"
  using assms selector_nonempty [OF assms(5)] QUERIES_nonempty [OF assms(5)]
  by (simp add: try_block_def QUERIES_get_selector)

lemma serve_of_try_block:
  "http_method req \<noteq> ''OPTIONS'' \<Longrightarrow> try_block env req = (Inr resp, tr) \<Longrightarrow>
   serve env req = (resp, tr)"
  by (simp add: serve_def)

lemma serve_of_throw:
  "http_method req \<noteq> ''OPTIONS'' \<Longrightarrow> try_block env req = (Inl e, tr) \<Longrightarrow>
   serve env req =
     (\<lparr>status = 500, headers = json_headers,
       body = Some (JObj [(''error'', JStr ''Internal server error''),
                          (''details'', JStr (message e))])\<rparr>, tr)"
  by (simp add: serve_def)

lemma resolve_store_found:
  "db_single env sid = Inr r \<Longrightarrow> data r = Some st \<Longrightarrow> error r = None \<Longrightarrow>
   resolve_store env sid dt = call_upstream env st dt [StoreLookup sid]"
  by (simp add: resolve_store_def Let_def)

lemma call_upstream_query:
  "map_of QUERIES dt = Some q \<Longrightarrow> fetch env (upstream_request st q) = r \<Longrightarrow>
   call_upstream env st dt tr =
     (let tr' = tr @ [UpstreamCall (upstream_request st q)]
      in case r of
           Inl e \<Rightarrow> (Inl e, tr')
         | Inr shopifyResponse \<Rightarrow>
             if \<not> ok shopifyResponse
             then (case up_text shopifyResponse of
                     Inl e \<Rightarrow> (Inl e, tr')
                   | Inr errorText \<Rightarrow>
                       (new_Response
                          (Some (JObj [(''error'', JStr ''Shopify API request failed''),
                                       (''details'',
                                        JStr (show_nat (up_status shopifyResponse) @ '': '' @
                                              up_statusText shopifyResponse)),
                                       (''shopifyError'', JStr errorText)]))
                          (Some (up_status shopifyResponse)) json_headers, tr'))
             else (case up_json shopifyResponse of
                     Inl e \<Rightarrow> (Inl e, tr')
                   | Inr shopifyData \<Rightarrow>
                       (case get_prop shopifyData ''errors'' of
                          Inl e \<Rightarrow> (Inl e, tr')
                        | Inr errors \<Rightarrow>
                            if truthy errors
                            then (new_Response
                                    (Some (JObj [(''error'', JStr ''Shopify GraphQL errors''),
                                                 (''details'', errors)]))
                                    (Some 400) json_headers, tr')
                            else (new_Response (Some shopifyData) None json_headers, tr'))))"
  by (simp add: call_upstream_def upstream_request_def QUERIES_get_selector Let_def)

lemma serve_valid_found:
  assumes "http_method req \<noteq> ''OPTIONS''"
    and "json_body req = Inr (JObj kvs)"
    and "map_of kvs ''store_id'' = Some sid" and "truthy sid"
    and "map_of kvs ''data_type'' = Some (JStr dt)" and "map_of QUERIES dt = Some q"
    and "db_single env sid = Inr r" and "data r = Some st" and "error r = None"
    and "call_upstream env st dt [StoreLookup sid] = (Inr resp, tr)"
  shows "serve env req = (resp, tr)"
proof -
  have "try_block env req = resolve_store env sid dt"
    using assms(2-6) by (rule try_block_valid)
  also have "\<dots> = call_upstream env st dt [StoreLookup sid]"
    using assms(7-9) by (rule resolve_store_found)
  finally show ?thesis using assms(1,10) by (simp add: serve_of_try_block)
qed

subsection \<open>Validation\<close>

text \<open>
  What the validation does reject: a body object that lacks one of the two fields, and
  a string \<^verbatim>\<open>data_type\<close> that names neither an entry of the catalog nor a property of
  \<^verbatim>\<open>Object.prototype\<close>. Both answer 400 with an empty trace.
\<close>

lemma serve_missing_field:
  assumes "http_method req \<noteq> ''OPTIONS''" and "json_body req = Inr (JObj kvs)"
    and "map_of kvs ''store_id'' = None \<or> map_of kvs ''data_type'' = None"
  shows "serve env req =
           (\<lparr>status = 400, headers = json_headers,
             body = Some (JObj [(''error'', JStr ''Missing store_id or data_type'')])\<rparr>, [])"
  using assms
  by (auto simp: serve_def try_block_def new_Response_fixed null_body_status_def)

lemma serve_unrecognized_string:
  assumes "http_method req \<noteq> ''OPTIONS''" and "json_body req = Inr (JObj kvs)"
    and "map_of kvs ''store_id'' = Some sid" and "truthy sid"
    and "map_of kvs ''data_type'' = Some (JStr dt)" and "dt \<noteq> []"
    and "map_of QUERIES dt = None" and "dt \<notin> set Object_prototype_keys"
  shows "serve env req =
           (\<lparr>status = 400, headers = json_headers,
             body = Some (JObj [(''error'',
                      JStr ''Invalid data_type. Must be: orders, products, or customers'')])\<rparr>, [])"
  using assms
  by (simp add: serve_def try_block_def QUERIES_get_def new_Response_fixed null_body_status_def)

text \<open>
  What it lets through: a \<^verbatim>\<open>data_type\<close> that names a property of
  \<^verbatim>\<open>Object.prototype\<close> reaches the store lookup.
\<close>

lemma inherited_key_lookup:
  "dt \<in> set Object_prototype_keys \<Longrightarrow> dt \<noteq> [] \<and> QUERIES_get dt = Some (Inherited dt)"
  by (auto simp: Object_prototype_keys_def QUERIES_get_def QUERIES_def)

lemma try_block_inherited_key:
  assumes "json_body req = Inr (JObj kvs)"
    and "map_of kvs ''store_id'' = Some sid" and "truthy sid"
    and "map_of kvs ''data_type'' = Some (JStr dt)" and "dt \<in> set Object_prototype_keys"
  shows "try_block env req = resolve_store env sid dt"
  using assms(1-4) inherited_key_lookup [OF assms(5)]
  by (simp add: try_block_def)

lemma resolve_store_trace:
  "db_single env sid = Inr r \<Longrightarrow>
   \<exists>tr. snd (resolve_store env sid dt) = StoreLookup sid # tr"
  by (auto simp: resolve_store_def call_upstream_def Let_def
      split: sum.splits option.splits)

lemma serve_trace:
  "http_method req \<noteq> ''OPTIONS'' \<Longrightarrow> snd (serve env req) = snd (try_block env req)"
  by (simp add: serve_def split: prod.splits sum.splits)

lemma serve_inherited_key_lookup:
  assumes "http_method req \<noteq> ''OPTIONS''" and "json_body req = Inr (JObj kvs)"
    and "map_of kvs ''store_id'' = Some sid" and "truthy sid"
    and "map_of kvs ''data_type'' = Some (JStr dt)" and "dt \<in> set Object_prototype_keys"
    and "db_single env sid = Inr r"
  shows "\<exists>tr. snd (serve env req) = StoreLookup sid # tr"
  using resolve_store_trace [OF assms(7), of dt]
  by (simp add: serve_trace [OF assms(1)] try_block_inherited_key [OF assms(2-6)])

text \<open>
  Claim C1: a request whose \<^verbatim>\<open>data_type\<close> is not one of the selectors orders,
  products, customers is answered with status 400, without credential lookup and
  without outbound call. The check \<^verbatim>\<open>!QUERIES[data_type]\<close> also finds the properties
  that \<^verbatim>\<open>QUERIES\<close> inherits, so the request \<^verbatim>\<open>{store_id: 1, data_type: "toString"}\<close>
  passes it: the store is looked up (and the answer is 404 when there is no such
  store), and with a store present one call goes upstream, its body the empty object.
\<close>

theorem serve_inherited_key_passes_validation:
  "serve env_no_store
     \<lparr>http_method = ''POST'',
      json_body = Inr (JObj [(''store_id'', JNum 1), (''data_type'', JStr ''toString'')])\<rparr> =
     (\<lparr>status = 404, headers = json_headers,
       body = Some (JObj [(''error'', JStr ''Store not found'')])\<rparr>,
      [StoreLookup (JNum 1)]) \<and>
   snd (serve (env_upstream upstream_401)
     \<lparr>http_method = ''POST'',
      json_body = Inr (JObj [(''store_id'', JNum 1), (''data_type'', JStr ''toString'')])\<rparr>) =
     [StoreLookup (JNum 1),
      UpstreamCall \<lparr>url = ''https://shop.myshopify.com/admin/api/2024-07/graphql.json'',
                    fetch_method = ''POST'',
                    fetch_headers = [(''Content-Type'', ''application/json''),
                                     (''X-Shopify-Access-Token'', ''shpat_example'')],
                    fetch_body = JObj []\<rparr>]"
  by (simp add: serve_def try_block_def resolve_store_def call_upstream_def Let_def
      env_no_store_def env_upstream_def upstream_401_def example_store_def ok_def
      QUERIES_get_def QUERIES_def Object_prototype_keys_def new_Response_def null_body_status_def)

text \<open>
  Claim C10: a \<^verbatim>\<open>store_id\<close> that is present in the body but falsy (the number 0, the
  empty string, \<^verbatim>\<open>false\<close>, \<^verbatim>\<open>null\<close>) is treated as missing: the answer is the 400
  response for missing fields, and nothing is looked up or called.
\<close>

theorem serve_falsy_store_id_missing:
  assumes "http_method req \<noteq> ''OPTIONS''" and "json_body req = Inr (JObj kvs)"
    and "map_of kvs ''store_id'' = Some sid" and "\<not> truthy sid"
  shows "serve env req =
           (\<lparr>status = 400, headers = json_headers,
             body = Some (JObj [(''error'', JStr ''Missing store_id or data_type'')])\<rparr>, [])"
  using assms
  by (simp add: serve_def try_block_def new_Response_fixed null_body_status_def)

text \<open>The theorem at \<^verbatim>\<open>store_id: 0\<close> and at \<^verbatim>\<open>store_id: ""\<close>.\<close>

theorem serve_falsy_store_id_missing_witness:
  "serve env_no_store
     \<lparr>http_method = ''POST'',
      json_body = Inr (JObj [(''store_id'', JNum 0), (''data_type'', JStr ''orders'')])\<rparr> =
     (\<lparr>status = 400, headers = json_headers,
       body = Some (JObj [(''error'', JStr ''Missing store_id or data_type'')])\<rparr>, []) \<and>
   serve env_no_store
     \<lparr>http_method = ''POST'',
      json_body = Inr (JObj [(''store_id'', JStr []), (''data_type'', JStr ''orders'')])\<rparr> =
     (\<lparr>status = 400, headers = json_headers,
       body = Some (JObj [(''error'', JStr ''Missing store_id or data_type'')])\<rparr>, [])"
  using serve_falsy_store_id_missing [of
      "\<lparr>http_method = ''POST'',
        json_body = Inr (JObj [(''store_id'', JNum 0), (''data_type'', JStr ''orders'')])\<rparr>"
      "[(''store_id'', JNum 0), (''data_type'', JStr ''orders'')]" "JNum 0" env_no_store]
    serve_falsy_store_id_missing [of
      "\<lparr>http_method = ''POST'',
        json_body = Inr (JObj [(''store_id'', JStr []), (''data_type'', JStr ''orders'')])\<rparr>"
      "[(''store_id'', JStr []), (''data_type'', JStr ''orders'')]" "JStr []" env_no_store]
  by simp

subsection \<open>Store lookup\<close>

text \<open>
  Claim C2, amended: for a request with a truthy \<^verbatim>\<open>store_id\<close> and a selector as
  \<^verbatim>\<open>data_type\<close>, when the lookup yields no row (or an error), the answer is status 404
  with the envelope \<^verbatim>\<open>{ error: "Store not found" }\<close>, and the only effect is the
  lookup: no call goes upstream.
\<close>

theorem serve_unknown_store_404:
  assumes "http_method req \<noteq> ''OPTIONS''"
    and "json_body req = Inr (JObj kvs)"
    and "map_of kvs ''store_id'' = Some sid" and "truthy sid"
    and "map_of kvs ''data_type'' = Some (JStr dt)" and "map_of QUERIES dt = Some q"
    and "db_single env sid = Inr r" and "data r = None \<or> error r \<noteq> None"
  shows "serve env req =
           (\<lparr>status = 404, headers = json_headers,
             body = Some (JObj [(''error'', JStr ''Store not found'')])\<rparr>,
            [StoreLookup sid])"
proof -
  have tb: "try_block env req = resolve_store env sid dt"
    using assms(2-6) by (rule try_block_valid)
  have "resolve_store env sid dt =
          (Inr \<lparr>status = 404, headers = json_headers,
                body = Some (JObj [(''error'', JStr ''Store not found'')])\<rparr>,
           [StoreLookup sid])"
    using assms(7,8)
    by (auto simp: resolve_store_def Let_def new_Response_fixed null_body_status_def
        split: option.splits)
  with tb assms(1) show ?thesis by (simp add: serve_of_try_block)
qed

theorem serve_unknown_store_404_witness:
  "serve env_no_store orders_request =
     (\<lparr>status = 404, headers = json_headers,
       body = Some (JObj [(''error'', JStr ''Store not found'')])\<rparr>,
      [StoreLookup (JNum 1)])"
  using serve_unknown_store_404 [of orders_request
      "[(''store_id'', JNum 1), (''data_type'', JStr ''orders'')]" "JNum 1" "''orders''"
      "the (map_of QUERIES ''orders'')" env_no_store
      "\<lparr>data = None, error = Some ''no rows returned''\<rparr>"]
  by (simp add: orders_request_def env_no_store_def QUERIES_def)

text \<open>
  The claim as stated asks only for the two fields to be present. With
  \<^verbatim>\<open>store_id: 0\<close> both are present, \<^verbatim>\<open>data_type\<close> is a selector and no store matches,
  yet the answer is 400, not 404.
\<close>

theorem serve_zero_store_id_counterexample:
  "db_single env_no_store (JNum 0) = Inr \<lparr>data = None, error = Some ''no rows returned''\<rparr> \<and>
   serve env_no_store
     \<lparr>http_method = ''POST'',
      json_body = Inr (JObj [(''store_id'', JNum 0), (''data_type'', JStr ''orders'')])\<rparr> =
     (\<lparr>status = 400, headers = json_headers,
       body = Some (JObj [(''error'', JStr ''Missing store_id or data_type'')])\<rparr>, [])"
  by (simp add: serve_def try_block_def env_no_store_def new_Response_fixed null_body_status_def)

subsection \<open>Upstream failures\<close>

text \<open>
  Claim C3, amended: when the upstream call completes with a non-success status that
  a response with a body may carry (300 to 599, except 304), the proxy answers with
  that same status; the raw upstream body is in the field \<^verbatim>\<open>shopifyError\<close> of the
  envelope, and \<^verbatim>\<open>details\<close> holds the status and the status text.
\<close>

theorem serve_upstream_failure_relayed:
  assumes "http_method req \<noteq> ''OPTIONS''"
    and "json_body req = Inr (JObj kvs)"
    and "map_of kvs ''store_id'' = Some sid" and "truthy sid"
    and "map_of kvs ''data_type'' = Some (JStr dt)" and "map_of QUERIES dt = Some q"
    and "db_single env sid = Inr r" and "data r = Some st" and "error r = None"
    and "fetch env (upstream_request st q) = Inr up" and "up_text up = Inr raw"
    and "300 \<le> up_status up" and "up_status up \<le> 599" and "up_status up \<noteq> 304"
  shows "serve env req =
           (\<lparr>status = up_status up, headers = json_headers,
             body = Some (JObj [(''error'', JStr ''Shopify API request failed''),
                                (''details'',
                                 JStr (show_nat (up_status up) @ '': '' @ up_statusText up)),
                                (''shopifyError'', JStr raw)])\<rparr>,
            [StoreLookup sid, UpstreamCall (upstream_request st q)])"
proof -
  have nok: "\<not> ok up" using assms(12) by (simp add: ok_def)
  have nb: "\<not> null_body_status (up_status up)"
    using assms(12,14) by (auto simp: null_body_status_def)
  have "call_upstream env st dt [StoreLookup sid] =
          (Inr \<lparr>status = up_status up, headers = json_headers,
             body = Some (JObj [(''error'', JStr ''Shopify API request failed''),
                                (''details'',
                                 JStr (show_nat (up_status up) @ '': '' @ up_statusText up)),
                                (''shopifyError'', JStr raw)])\<rparr>,
           [StoreLookup sid, UpstreamCall (upstream_request st q)])"
    using nok nb assms(11-13)
    by (simp add: call_upstream_query [OF assms(6) assms(10)] new_Response_fixed)
  with assms(1-9) show ?thesis by (rule serve_valid_found)
qed

theorem serve_upstream_failure_relayed_witness:
  "serve (env_upstream upstream_401) orders_request =
     (\<lparr>status = 401, headers = json_headers,
       body = Some (JObj [(''error'', JStr ''Shopify API request failed''),
                          (''details'', JStr (show_nat 401 @ '': '' @ ''Unauthorized'')),
                          (''shopifyError'', JStr ''[API] Invalid API key or access token'')])\<rparr>,
      [StoreLookup (JNum 1),
       UpstreamCall (upstream_request example_store (the (map_of QUERIES ''orders'')))])"
  using serve_upstream_failure_relayed [of orders_request
      "[(''store_id'', JNum 1), (''data_type'', JStr ''orders'')]" "JNum 1" "''orders''"
      "the (map_of QUERIES ''orders'')" "env_upstream upstream_401"
      "\<lparr>data = Some example_store, error = None\<rparr>" example_store upstream_401
      "''[API] Invalid API key or access token''"]
  by (simp add: orders_request_def env_upstream_def upstream_401_def QUERIES_def)

text \<open>
  The claim as stated puts the raw upstream body into \<^verbatim>\<open>details\<close>. For an upstream
  401 with body \<^verbatim>\<open>[API] Invalid API key or access token\<close>, \<^verbatim>\<open>details\<close> is
  \<^verbatim>\<open>401: Unauthorized\<close>. And an upstream status that no response can be constructed
  with, such as 999, is answered with 500.
\<close>

theorem serve_upstream_details_counterexample:
  "fst (serve (env_upstream upstream_401) orders_request) =
     \<lparr>status = 401, headers = json_headers,
      body = Some (JObj [(''error'', JStr ''Shopify API request failed''),
                         (''details'', JStr ''401: Unauthorized''),
                         (''shopifyError'', JStr ''[API] Invalid API key or access token'')])\<rparr> \<and>
   status (fst (serve (env_upstream upstream_999) orders_request)) = 500"
  by (simp add: serve_def try_block_def resolve_store_def call_upstream_def Let_def
      orders_request_def env_upstream_def upstream_401_def upstream_999_def ok_def
      QUERIES_get_def QUERIES_def new_Response_def null_body_status_def
      show_nat.simps digit_char_def)

text \<open>
  Claim C4, amended: when the upstream call succeeds and its JSON payload is an object
  with an \<^verbatim>\<open>errors\<close> array, the proxy answers with status 400 and the envelope
  \<^verbatim>\<open>{ error: "Shopify GraphQL errors", details: <that array> }\<close>.
\<close>

theorem serve_graphql_errors_400:
  assumes "http_method req \<noteq> ''OPTIONS''"
    and "json_body req = Inr (JObj kvs)"
    and "map_of kvs ''store_id'' = Some sid" and "truthy sid"
    and "map_of kvs ''data_type'' = Some (JStr dt)" and "map_of QUERIES dt = Some q"
    and "db_single env sid = Inr r" and "data r = Some st" and "error r = None"
    and "fetch env (upstream_request st q) = Inr up" and "ok up"
    and "up_json up = Inr (JObj payload)" and "map_of payload ''errors'' = Some (JArr errs)"
  shows "serve env req =
           (\<lparr>status = 400, headers = json_headers,
             body = Some (JObj [(''error'', JStr ''Shopify GraphQL errors''),
                                (''details'', JArr errs)])\<rparr>,
            [StoreLookup sid, UpstreamCall (upstream_request st q)])"
proof -
  have "call_upstream env st dt [StoreLookup sid] =
          (Inr \<lparr>status = 400, headers = json_headers,
             body = Some (JObj [(''error'', JStr ''Shopify GraphQL errors''),
                                (''details'', JArr errs)])\<rparr>,
           [StoreLookup sid, UpstreamCall (upstream_request st q)])"
    using assms(11-13)
    by (simp add: call_upstream_query [OF assms(6) assms(10)] new_Response_fixed
        null_body_status_def)
  with assms(1-9) show ?thesis by (rule serve_valid_found)
qed

theorem serve_graphql_errors_400_witness:
  "serve (env_upstream upstream_graphql_errors) orders_request =
     (\<lparr>status = 400, headers = json_headers,
       body = Some (JObj [(''error'', JStr ''Shopify GraphQL errors''),
                          (''details'',
                           JArr [JObj [(''message'', JStr ''Field does not exist'')]])])\<rparr>,
      [StoreLookup (JNum 1),
       UpstreamCall (upstream_request example_store (the (map_of QUERIES ''orders'')))])"
  using serve_graphql_errors_400 [of orders_request
      "[(''store_id'', JNum 1), (''data_type'', JStr ''orders'')]" "JNum 1" "''orders''"
      "the (map_of QUERIES ''orders'')" "env_upstream upstream_graphql_errors"
      "\<lparr>data = Some example_store, error = None\<rparr>" example_store upstream_graphql_errors
      "[(''errors'', JArr [JObj [(''message'', JStr ''Field does not exist'')]])]"
      "[JObj [(''message'', JStr ''Field does not exist'')]]"]
  by (simp add: orders_request_def env_upstream_def upstream_graphql_errors_def ok_def QUERIES_def)

text \<open>
  The claim as stated gives status 500. For an upstream 200 whose payload carries an
  \<^verbatim>\<open>errors\<close> array the status is 400.
\<close>

theorem serve_graphql_errors_status_counterexample:
  "ok upstream_graphql_errors \<and>
   status (fst (serve (env_upstream upstream_graphql_errors) orders_request)) = 400"
  by (simp add: serve_def try_block_def resolve_store_def call_upstream_def Let_def
      orders_request_def env_upstream_def upstream_graphql_errors_def ok_def
      QUERIES_get_def QUERIES_def new_Response_def null_body_status_def)

subsection \<open>Success\<close>

text \<open>
  A payload object without \<^verbatim>\<open>errors\<close> is relayed whole, with status 200.
\<close>

lemma serve_success:
  assumes "http_method req \<noteq> ''OPTIONS''"
    and "json_body req = Inr (JObj kvs)"
    and "map_of kvs ''store_id'' = Some sid" and "truthy sid"
    and "map_of kvs ''data_type'' = Some (JStr dt)" and "map_of QUERIES dt = Some q"
    and "db_single env sid = Inr r" and "data r = Some st" and "error r = None"
    and "fetch env (upstream_request st q) = Inr up" and "ok up"
    and "up_json up = Inr (JObj payload)" and "map_of payload ''errors'' = None"
  shows "serve env req =
           (\<lparr>status = 200, headers = json_headers, body = Some (JObj payload)\<rparr>,
            [StoreLookup sid, UpstreamCall (upstream_request st q)])"
proof -
  have "call_upstream env st dt [StoreLookup sid] =
          (Inr \<lparr>status = 200, headers = json_headers, body = Some (JObj payload)\<rparr>,
           [StoreLookup sid, UpstreamCall (upstream_request st q)])"
    using assms(11-13)
    by (simp add: call_upstream_query [OF assms(6) assms(10)] new_Response_def
        null_body_status_def)
  with assms(1-9) show ?thesis by (rule serve_valid_found)
qed

subsection \<open>Cross-origin headers\<close>

text \<open>
  Claim C9: whatever the environment and the request, the response carries the
  cross-origin headers; and a request with method \<^verbatim>\<open>OPTIONS\<close> is answered with the
  empty response (no body, the cross-origin headers only) whatever its body is, with
  no effect performed.
\<close>

theorem serve_cors_on_every_path:
  "set corsHeaders \<subseteq> set (headers (fst (serve env req))) \<and>
   (http_method req = ''OPTIONS'' \<longrightarrow>
      serve env req = (\<lparr>status = 200, headers = corsHeaders, body = None\<rparr>, []))"
proof (cases "http_method req = ''OPTIONS''")
  case True
  then show ?thesis by (simp add: serve_def)
next
  case False
  then have "headers (fst (serve env req)) = json_headers" by (rule serve_headers)
  with False show ?thesis by (auto simp: json_headers_def)
qed

theorem serve_cors_on_every_path_witness:
  "set corsHeaders \<subseteq>
     set (headers (fst (serve env_no_store \<lparr>http_method = ''OPTIONS'', json_body = Inr JNull\<rparr>))) \<and>
   serve env_no_store \<lparr>http_method = ''OPTIONS'', json_body = Inr JNull\<rparr> =
     (\<lparr>status = 200, headers = corsHeaders, body = None\<rparr>, [])"
  using serve_cors_on_every_path [of env_no_store
      "\<lparr>http_method = ''OPTIONS'', json_body = Inr JNull\<rparr>"]
  by simp

subsection \<open>The query catalog\<close>

text \<open>
  Claim C8: the catalog is a constant with exactly the three entries orders, products
  and customers, and each query text asks for the first 20 records, sorted by the
  processing time (orders) or the update time (products, customers), in reverse
  order. The handler takes the catalog as this constant and returns no new one.
\<close>

theorem QUERIES_catalog:
  "map fst QUERIES = [''orders'', ''products'', ''customers''] \<and>
   (case map_of QUERIES ''orders'' of
      Some q \<Rightarrow> includes_str q ''orders(first: 20, sortKey: PROCESSED_AT, reverse: true)''
    | None \<Rightarrow> False) \<and>
   (case map_of QUERIES ''products'' of
      Some q \<Rightarrow> includes_str q ''products(first: 20, sortKey: UPDATED_AT, reverse: true)''
    | None \<Rightarrow> False) \<and>
   (case map_of QUERIES ''customers'' of
      Some q \<Rightarrow> includes_str q ''customers(first: 20, sortKey: UPDATED_AT, reverse: true)''
    | None \<Rightarrow> False)"
  by (simp add: QUERIES_def)

section \<open>Properties of the Store Manager's domain normalization\<close>

lemma startsWith_append: "startsWith (p @ s) p"
  by (induction p) auto

lemma endsWith_append: "endsWith (s @ p) p"
  by (simp add: endsWith_def startsWith_append)

text \<open>
  An input that does not contain the suffix is stored with the suffix at its end, a
  leading protocol and one trailing slash removed.
\<close>

lemma handleSubmit_domain_without_suffix:
  "\<not> includes_str d ''.myshopify.com'' \<Longrightarrow>
   handleSubmit_domain d = strip_trailing_slash (strip_protocol d) @ ''.myshopify.com'' \<or>
   handleSubmit_domain d = strip_trailing_slash (strip_protocol d)"
  by (simp add: handleSubmit_domain_def Let_def)

lemma handleSubmit_domain_suffix:
  "\<not> includes_str d ''.myshopify.com'' \<Longrightarrow>
   endsWith (handleSubmit_domain d) ''.myshopify.com''"
  unfolding handleSubmit_domain_def Let_def
  by (simp add: endsWith_append del: startsWith.simps)

lemma handleSubmit_domain_bare: "handleSubmit_domain ''foo'' = ''foo.myshopify.com''"
  by (simp add: handleSubmit_domain_def strip_protocol_def strip_trailing_slash_def endsWith_def)

lemma handleSubmit_domain_url: "handleSubmit_domain ''https://foo/'' = ''foo.myshopify.com''"
  by (simp add: handleSubmit_domain_def strip_protocol_def strip_trailing_slash_def endsWith_def)

text \<open>
  Claim C5: every input is stored as a value that ends in \<^verbatim>\<open>.myshopify.com\<close>, without
  protocol prefix and trailing slash; in particular \<^verbatim>\<open>https://foo.myshopify.com/\<close> is
  stored as \<^verbatim>\<open>foo.myshopify.com\<close>. The code normalizes only an input that does not
  contain the suffix: \<^verbatim>\<open>https://foo.myshopify.com/\<close> contains it and is stored
  unchanged, with its protocol and its slash, and does not end in the suffix.
\<close>

theorem handleSubmit_domain_keeps_url:
  "handleSubmit_domain ''https://foo.myshopify.com/'' = ''https://foo.myshopify.com/'' \<and>
   \<not> endsWith (handleSubmit_domain ''https://foo.myshopify.com/'') ''.myshopify.com''"
  by (simp add: handleSubmit_domain_def endsWith_def)

section \<open>Properties of the row normalizer\<close>

subsection \<open>Conversions of plain values\<close>

lemma plain_all_iff: "plain_all xs \<longleftrightarrow> (\<forall>x\<in>set xs. plain x)"
  by (induction xs) auto

lemma ToString_plain:
  "plain v \<Longrightarrow> \<exists>s. ToString ns v = Inr s"
  "plain_all xs \<Longrightarrow> \<exists>s. join_elements ns xs = Inr s"
proof (induction ns v and ns xs rule: ToString_join_elements.induct)
  case (9 ns x xs)
  show ?case
  proof (cases "x = JUndefined \<or> x = JNull")
    case True
    with 9 show ?thesis by (cases "xs = []") auto
  next
    case False
    with 9 obtain s where s: "ToString ns x = Inr s" by auto
    show ?thesis
    proof (cases "xs = []")
      case True
      with False s show ?thesis by simp
    next
      case nonempty: False
      with 9 False s obtain r where "join_elements ns xs = Inr r" by auto
      with False s nonempty show ?thesis by simp
    qed
  qed
qed auto

lemma ToString_text_of: "plain v \<Longrightarrow> ToString (Number_toString rt) v = Inr (text_of rt v)"
  using ToString_plain(1) [of v "Number_toString rt"] by (auto simp: text_of_def)

lemma plain_opt_prop: "plain v \<Longrightarrow> plain (opt_prop v k)"
proof (cases v)
  case (JObj kvs)
  assume "plain v"
  with JObj have all: "\<forall>x\<in>set (map snd kvs). plain x" by (simp add: plain_all_iff)
  show ?thesis
  proof (cases "map_of kvs k")
    case None
    with JObj show ?thesis by simp
  next
    case (Some w)
    then have "(k, w) \<in> set kvs" by (rule map_of_SomeD)
    then have "w \<in> set (map snd kvs)" by force
    with all have "plain w" by blast
    with Some JObj show ?thesis by simp
  qed
qed simp_all

lemma get_prop_opt: "v \<noteq> JUndefined \<Longrightarrow> v \<noteq> JNull \<Longrightarrow> get_prop v k = Inr (opt_prop v k)"
  by (cases v) simp_all

lemma truthy_not_nullish: "truthy v \<Longrightarrow> v \<noteq> JUndefined \<and> v \<noteq> JNull"
  by (cases v) simp_all

lemma opt_prop_truthy_base: "truthy (opt_prop v k) \<Longrightarrow> v \<noteq> JUndefined \<and> v \<noteq> JNull"
  by (cases v) simp_all

lemma get_prop_truthy: "truthy v \<Longrightarrow> get_prop v k = Inr (opt_prop v k)"
  by (simp add: get_prop_opt truthy_not_nullish)

lemma parseFloat_plain: "plain v \<Longrightarrow> parseFloat rt v = Inr (number_of rt v)"
  by (simp add: parseFloat_def number_of_def ToString_text_of)

lemma date_string_plain: "plain v \<Longrightarrow> date_string rt v = Inr (date_of rt v)"
  using ToString_text_of [of v rt]
  by (cases v) (simp_all add: date_of_def)

lemma opt_prop_set_prop:
  "opt_prop (JObj (set_prop k v kvs)) k' = (if k' = k then v else opt_prop (JObj kvs) k')"
  by (induction kvs) auto

lemma money_text_eq:
  assumes "truthy m" and "plain m"
  shows "money_text rt (Inr m) =
           Inr (JStr (text_of rt (opt_prop m ''currencyCode'') @ '' '' @
                      toFixed2 rt (number_of rt (opt_prop m ''amount''))))"
  using assms
  by (simp add: money_text_def get_prop_truthy ToString_text_of parseFloat_plain plain_opt_prop
      del: toFixed2.simps)

lemma prop2_opt:
  "n \<noteq> JUndefined \<Longrightarrow> n \<noteq> JNull \<Longrightarrow> truthy (opt_prop (opt_prop n a) b) \<Longrightarrow>
   prop2 n a b = Inr (opt_prop (opt_prop n a) b)"
  using opt_prop_truthy_base [of "opt_prop n a" b]
  by (simp add: prop2_def get_prop_opt)

lemma prop2_truthy:
  "n \<noteq> JUndefined \<Longrightarrow> n \<noteq> JNull \<Longrightarrow> truthy (opt_prop n a) \<Longrightarrow>
   prop2 n a b = Inr (opt_prop (opt_prop n a) b)"
  by (simp add: prop2_def get_prop_opt get_prop_truthy)

lemma order_totalPrice_eq:
  assumes "safe_node n"
  shows "order_totalPrice rt n =
           Inr (if truthy (opt_prop (opt_prop n ''totalPriceSet'') ''shopMoney'')
                then JStr (text_of rt (opt_prop (opt_prop (opt_prop n ''totalPriceSet'') ''shopMoney'')
                                        ''currencyCode'') @ '' '' @
                           toFixed2 rt (number_of rt
                             (opt_prop (opt_prop (opt_prop n ''totalPriceSet'') ''shopMoney'')
                                ''amount'')))
                else JStr ''N/A'')"
  using assms
  by (simp add: order_totalPrice_def safe_node_def get_prop_opt prop2_opt money_text_eq
      plain_opt_prop del: toFixed2.simps)

lemma product_price_eq:
  assumes "safe_node n"
  shows "product_price rt n =
           Inr (if truthy (opt_prop (opt_prop n ''priceRangeV2'') ''minVariantPrice'')
                then JStr (text_of rt (opt_prop (opt_prop (opt_prop n ''priceRangeV2'')
                                        ''minVariantPrice'') ''currencyCode'') @ '' '' @
                           toFixed2 rt (number_of rt
                             (opt_prop (opt_prop (opt_prop n ''priceRangeV2'') ''minVariantPrice'')
                                ''amount'')))
                else JStr ''N/A'')"
  using assms
  by (simp add: product_price_def safe_node_def get_prop_opt prop2_opt money_text_eq
      plain_opt_prop del: toFixed2.simps)

lemma customer_amountSpent_eq:
  assumes "safe_node n"
  shows "customer_amountSpent rt n =
           Inr (if truthy (opt_prop n ''amountSpent'')
                then JStr (text_of rt (opt_prop (opt_prop n ''amountSpent'') ''currencyCode'') @
                           '' '' @
                           toFixed2 rt (number_of rt (opt_prop (opt_prop n ''amountSpent'') ''amount'')))
                else JStr ''N/A'')"
  using assms
  by (simp add: customer_amountSpent_def safe_node_def get_prop_opt money_text_eq
      plain_opt_prop del: toFixed2.simps)

lemma plain_or_else: "plain x \<Longrightarrow> plain (or_else x (JStr s))"
  by (simp add: or_else_def)

lemma order_customerName_eq:
  assumes "safe_node n"
  shows "order_customerName rt n =
           Inr (if truthy (opt_prop n ''customer'')
                then (if trim (text_of rt (or_else (opt_prop (opt_prop n ''customer'') ''firstName'')
                                             (JStr [])) @ '' '' @
                               text_of rt (or_else (opt_prop (opt_prop n ''customer'') ''lastName'')
                                             (JStr []))) \<noteq> []
                      then JStr (trim (text_of rt (or_else (opt_prop (opt_prop n ''customer'')
                                                     ''firstName'') (JStr [])) @ '' '' @
                                       text_of rt (or_else (opt_prop (opt_prop n ''customer'')
                                                     ''lastName'') (JStr []))))
                      else or_else (opt_prop (opt_prop n ''customer'') ''email'') (JStr ''Guest''))
                else JStr ''Guest'')"
  using assms
  by (simp add: order_customerName_def safe_node_def get_prop_opt prop2_truthy ToString_text_of
      plain_opt_prop plain_or_else Let_def)

lemma date_or_NA_eq:
  assumes "safe_node n"
  shows "date_or_NA rt n k =
           Inr (if truthy (opt_prop n k) then JStr (date_of rt (opt_prop n k)) else JStr ''N/A'')"
  using assms
  by (simp add: date_or_NA_def safe_node_def get_prop_opt date_string_plain plain_opt_prop)



lemma process_node_Orders:
  assumes "safe_node n"
  shows "process_node rt Orders n =
     Inr (JObj (set_prop ''processedAt''
                  (if truthy (opt_prop n ''processedAt'')
                   then JStr (date_of rt (opt_prop n ''processedAt'')) else JStr ''N/A'')
               (set_prop ''customerName''
                  (if truthy (opt_prop n ''customer'')
                   then (if trim (text_of rt (or_else (opt_prop (opt_prop n ''customer'') ''firstName'')
                                                (JStr [])) @ '' '' @
                                  text_of rt (or_else (opt_prop (opt_prop n ''customer'') ''lastName'')
                                                (JStr []))) \<noteq> []
                         then JStr (trim (text_of rt (or_else (opt_prop (opt_prop n ''customer'')
                                                        ''firstName'') (JStr [])) @ '' '' @
                                          text_of rt (or_else (opt_prop (opt_prop n ''customer'')
                                                        ''lastName'') (JStr []))))
                         else or_else (opt_prop (opt_prop n ''customer'') ''email'') (JStr ''Guest''))
                   else JStr ''Guest'')
               (set_prop ''totalPrice''
                  (if truthy (opt_prop (opt_prop n ''totalPriceSet'') ''shopMoney'')
                   then JStr (text_of rt (opt_prop (opt_prop (opt_prop n ''totalPriceSet'')
                                           ''shopMoney'') ''currencyCode'') @ '' '' @
                              toFixed2 rt (number_of rt
                                (opt_prop (opt_prop (opt_prop n ''totalPriceSet'') ''shopMoney'')
                                   ''amount'')))
                   else JStr ''N/A'')
               (spread n)))))"
  by (simp add: order_totalPrice_eq [OF assms] order_customerName_eq [OF assms]
      date_or_NA_eq [OF assms] del: toFixed2.simps set_prop.simps)

lemma process_node_Products:
  assumes "safe_node n"
  shows "process_node rt Products n =
     Inr (JObj (set_prop ''updatedAt''
                  (if truthy (opt_prop n ''updatedAt'')
                   then JStr (date_of rt (opt_prop n ''updatedAt'')) else JStr ''N/A'')
               (set_prop ''price''
                  (if truthy (opt_prop (opt_prop n ''priceRangeV2'') ''minVariantPrice'')
                   then JStr (text_of rt (opt_prop (opt_prop (opt_prop n ''priceRangeV2'')
                                           ''minVariantPrice'') ''currencyCode'') @ '' '' @
                              toFixed2 rt (number_of rt
                                (opt_prop (opt_prop (opt_prop n ''priceRangeV2'')
                                   ''minVariantPrice'') ''amount'')))
                   else JStr ''N/A'')
               (spread n))))"
  by (simp add: product_price_eq [OF assms] date_or_NA_eq [OF assms]
      del: toFixed2.simps set_prop.simps)

lemma process_node_Customers:
  assumes "safe_node n"
  shows "process_node rt Customers n =
     Inr (JObj (set_prop ''amountSpent''
                  (if truthy (opt_prop n ''amountSpent'')
                   then JStr (text_of rt (opt_prop (opt_prop n ''amountSpent'') ''currencyCode'') @
                              '' '' @
                              toFixed2 rt (number_of rt
                                (opt_prop (opt_prop n ''amountSpent'') ''amount'')))
                   else JStr ''N/A'')
               (spread n)))"
  by (simp add: customer_amountSpent_eq [OF assms] del: toFixed2.simps set_prop.simps)

lemma process_node_safe:
  assumes "safe_node n"
  shows "\<exists>r. process_node rt dataType n = Inr r \<and> fallback_strings dataType n r"
proof (cases dataType)
  case Orders
  show ?thesis
    unfolding Orders process_node_Orders [OF assms]
    by (simp add: opt_prop_set_prop del: toFixed2.simps set_prop.simps opt_prop.simps)
next
  case Products
  show ?thesis
    unfolding Products process_node_Products [OF assms]
    by (simp add: opt_prop_set_prop del: toFixed2.simps set_prop.simps opt_prop.simps)
next
  case Customers
  show ?thesis
    unfolding Customers process_node_Customers [OF assms]
    by (simp add: opt_prop_set_prop del: toFixed2.simps set_prop.simps opt_prop.simps)
qed

lemma processData_map:
  assumes "list_all safe_node nodes"
  shows "\<exists>rows. processData rt nodes dataType = Inr rows \<and>
           list_all2 (\<lambda>n r. process_node rt dataType n = Inr r \<and> fallback_strings dataType n r)
             nodes rows"
  using assms
proof (induction nodes)
  case Nil
  show ?case by simp
next
  case (Cons n ns)
  then obtain r where r: "process_node rt dataType n = Inr r" "fallback_strings dataType n r"
    using process_node_safe [of n rt dataType] by auto
  from Cons obtain rs where rs: "processData rt ns dataType = Inr rs"
    "list_all2 (\<lambda>n r. process_node rt dataType n = Inr r \<and> fallback_strings dataType n r) ns rs"
    by auto
  show ?case using r rs by simp
qed

subsection \<open>The digits of prices\<close>

text \<open>The digits that \<^verbatim>\<open>toFixed(2)\<close> writes.\<close>

lemma is_digit_digit_char: "d < 10 \<Longrightarrow> is_digit (digit_char d)"
  unfolding is_digit_def digit_char_def by (rule nth_mem) simp

lemma show_nat_digits: "list_all is_digit (show_nat n)"
proof (induction n rule: show_nat.induct)
  case (1 n)
  show ?case
  proof (cases "n < 10")
    case True
    then show ?thesis by (subst show_nat.simps) (simp add: is_digit_digit_char)
  next
    case False
    with 1 show ?thesis by (subst show_nat.simps) (simp add: is_digit_digit_char)
  qed
qed

lemma is_digit_zero: "is_digit (CHR ''0'')"
  by (simp add: is_digit_def)

lemma not_digit_minus: "is_digit c \<Longrightarrow> c \<noteq> CHR ''-''"
  by (auto simp: is_digit_def)

lemma fixed2_digits_shape:
  "\<exists>a b. fixed2_digits n = a @ CHR ''.'' # b \<and> a \<noteq> [] \<and> length b = 2 \<and>
         list_all is_digit a \<and> list_all is_digit b"
proof -
  define m where "m = show_nat n"
  define m' where "m' = (if length m \<le> 2 then replicate (3 - length m) (CHR ''0'') @ m else m)"
  have dm: "list_all is_digit m" unfolding m_def by (rule show_nat_digits)
  have dm': "list_all is_digit m'"
    using dm by (auto simp: m'_def list_all_iff is_digit_zero)
  have len: "3 \<le> length m'"
    by (auto simp: m'_def)
  let ?k = "length m'"
  have eq: "fixed2_digits n = take (?k - 2) m' @ CHR ''.'' # drop (?k - 2) m'"
    by (simp add: fixed2_digits_def m'_def m_def Let_def)
  have "take (?k - 2) m' \<noteq> []" using len by auto
  moreover have "length (drop (?k - 2) m') = 2" using len by simp
  moreover have "list_all is_digit (take (?k - 2) m')"
    using dm' by (auto simp: list_all_iff dest: in_set_takeD)
  moreover have "list_all is_digit (drop (?k - 2) m')"
    using dm' by (auto simp: list_all_iff dest: in_set_dropD)
  ultimately show ?thesis using eq by blast
qed

lemma two_decimals_shape:
  assumes "a \<noteq> []" "length b = 2" "list_all is_digit a" "list_all is_digit b"
  shows "two_decimals (a @ CHR ''.'' # b)" and "two_decimals (CHR ''-'' # a @ CHR ''.'' # b)"
proof -
  obtain c cs where a: "a = c # cs" using assms(1) by (cases a) auto
  have c: "c \<noteq> CHR ''-''" using assms(3) a by (auto dest: not_digit_minus)
  show "two_decimals (a @ CHR ''.'' # b)"
    unfolding two_decimals_def Let_def using assms c
    by (simp add: a nth_append)
  show "two_decimals (CHR ''-'' # a @ CHR ''.'' # b)"
    unfolding two_decimals_def Let_def using assms
    by (simp add: a nth_append)
qed

lemma toFixed2_two_decimals:
  assumes "\<bar>x\<bar> < 10 ^ 21"
  shows "two_decimals (toFixed2 rt (Finite x))"
proof -
  obtain a b where ab: "fixed2_digits (nat \<lfloor>\<bar>x\<bar> * 100 + 1 / 2\<rfloor>) = a @ CHR ''.'' # b"
    "a \<noteq> []" "length b = 2" "list_all is_digit a" "list_all is_digit b"
    using fixed2_digits_shape by blast
  show ?thesis
    using assms two_decimals_shape [OF ab(2-5)] by (simp add: Let_def ab(1))
qed

subsection \<open>Totality\<close>

text \<open>
  Claim C6, amended: for a fixed browser runtime (its number parsing and formatting,
  its locale and time zone), on every list of safe nodes, which includes the nodes
  with any combination of missing or \<^verbatim>\<open>null\<close> properties, and for every selector the
  row normalizer returns without throwing; it returns one row per node, each row
  being the row that the callback computes from that node alone, so that equal nodes
  have equal rows; and every derived property whose source is missing, \<^verbatim>\<open>null\<close> or
  falsy is the fallback string, the derived prices and dates being strings always.
\<close>

theorem processData_total_on_safe_nodes:
  assumes "list_all safe_node nodes"
  shows "\<exists>rows. processData rt nodes dataType = Inr rows \<and> length rows = length nodes \<and>
           (\<forall>i<length nodes.
              process_node rt dataType (nodes ! i) = Inr (rows ! i) \<and>
              fallback_strings dataType (nodes ! i) (rows ! i)) \<and>
           (\<forall>i<length nodes. \<forall>j<length nodes. nodes ! i = nodes ! j \<longrightarrow> rows ! i = rows ! j)"
proof -
  obtain rows where rows: "processData rt nodes dataType = Inr rows"
    and all: "list_all2 (\<lambda>n r. process_node rt dataType n = Inr r \<and> fallback_strings dataType n r)
                nodes rows"
    using processData_map [OF assms] by blast
  have len: "length rows = length nodes"
    using all by (simp add: list_all2_lengthD)
  have each: "\<And>i. i < length nodes \<Longrightarrow>
      process_node rt dataType (nodes ! i) = Inr (rows ! i) \<and>
      fallback_strings dataType (nodes ! i) (rows ! i)"
    using all by (simp add: list_all2_conv_all_nth)
  have same: "\<And>i j. i < length nodes \<Longrightarrow> j < length nodes \<Longrightarrow> nodes ! i = nodes ! j \<Longrightarrow>
      rows ! i = rows ! j"
  proof -
    fix i j
    assume "i < length nodes" "j < length nodes" "nodes ! i = nodes ! j"
    then have "Inr (rows ! i) = (Inr (rows ! j) :: exn + jsval)"
      using each [of i] each [of j] by simp
    then show "rows ! i = rows ! j" by simp
  qed
  show ?thesis using rows len each same by blast
qed

text \<open>
  The theorem at the list of the example order, the guest order and the example order
  again.
\<close>

theorem processData_total_on_safe_nodes_witness:
  "list_all safe_node [example_order, guest_order, example_order] \<and>
   processData rt_example [example_order, guest_order, example_order] Orders =
     Inr [example_order_row, guest_order_row, example_order_row] \<and>
   fallback_strings Orders guest_order guest_order_row"
proof -
  have safe: "list_all safe_node [example_order, guest_order, example_order]"
    by (simp add: safe_node_def example_order_def guest_order_def)
  have fl: "\<lfloor>2501 / 2 :: rat\<rfloor> = 1250"
    by (rule floor_unique) simp_all
  have price: "toFixed2 rt_example (Finite (25 / 2)) = ''12.50''"
    by (simp add: fl fixed2_digits_def show_nat.simps digit_char_def Let_def)
  have first: "process_node rt_example Orders example_order = Inr example_order_row"
    using price
    by (simp add: example_order_def example_order_row_def order_totalPrice_def
        order_customerName_def date_or_NA_def money_text_def prop2_def parseFloat_def
        numeric_start_def is_space_def is_digit_def or_else_def trim_def rt_example_def
        del: toFixed2.simps)
  have second: "process_node rt_example Orders guest_order = Inr guest_order_row"
    by (simp add: guest_order_def guest_order_row_def order_totalPrice_def
        order_customerName_def date_or_NA_def)
  obtain rows where rows:
    "processData rt_example [example_order, guest_order, example_order] Orders = Inr rows"
    "\<forall>i<length [example_order, guest_order, example_order].
        process_node rt_example Orders ([example_order, guest_order, example_order] ! i) =
          Inr (rows ! i) \<and>
        fallback_strings Orders ([example_order, guest_order, example_order] ! i) (rows ! i)"
    using processData_total_on_safe_nodes [OF safe, of rt_example Orders] by blast
  have eq: "rows = [example_order_row, guest_order_row, example_order_row]"
    using rows(1) by (simp add: first second del: process_node.simps)
  from rows(2) have "fallback_strings Orders guest_order (rows ! 1)"
    by (simp add: All_less_Suc2 del: fallback_strings.simps)
  then have "fallback_strings Orders guest_order guest_order_row"
    by (simp add: eq del: fallback_strings.simps)
  with safe rows(1) eq show ?thesis by simp
qed

text \<open>
  The claim as stated covers every input node and makes the rows a function of the
  nodes and the selector alone. An amount that is an object with an own property
  \<^verbatim>\<open>toString\<close> makes the conversion to a string throw, a node that is \<^verbatim>\<open>null\<close> makes
  the first property read throw, and the same order has different rows in the two
  locales.
\<close>

theorem processData_throws_counterexample:
  "processData rt_example [hostile_order] Orders =
     Inl (TypeError ''Cannot convert object to primitive value'') \<and>
   processData rt_example [JNull] Orders =
     Inl (TypeError ''Cannot read properties of null (reading totalPriceSet)'') \<and>
   processData rt_example [example_order] Orders = Inr [example_order_row] \<and>
   processData rt_german [example_order] Orders = Inr [example_order_row_german] \<and>
   example_order_row \<noteq> example_order_row_german"
proof -
  have hostile: "process_node rt_example Orders hostile_order =
      Inl (TypeError ''Cannot convert object to primitive value'')"
    by (simp add: hostile_order_def order_totalPrice_def money_text_def prop2_def parseFloat_def
        rt_example_def)
  have null: "process_node rt_example Orders JNull =
      Inl (TypeError ''Cannot read properties of null (reading totalPriceSet)'')"
    by (simp add: order_totalPrice_def)
  have fl: "\<lfloor>2501 / 2 :: rat\<rfloor> = 1250"
    by (rule floor_unique) simp_all
  have price: "\<And>rt. toFixed2 rt (Finite (25 / 2)) = ''12.50''"
    by (simp add: fl fixed2_digits_def show_nat.simps digit_char_def Let_def)
  have english: "process_node rt_example Orders example_order = Inr example_order_row"
    using price [of rt_example]
    by (simp add: example_order_def example_order_row_def order_totalPrice_def
        order_customerName_def date_or_NA_def money_text_def prop2_def parseFloat_def
        numeric_start_def is_space_def is_digit_def or_else_def trim_def rt_example_def
        del: toFixed2.simps)
  have german: "process_node rt_german Orders example_order = Inr example_order_row_german"
    using price [of rt_german]
    by (simp add: example_order_def example_order_row_german_def order_totalPrice_def
        order_customerName_def date_or_NA_def money_text_def prop2_def parseFloat_def
        numeric_start_def is_space_def is_digit_def or_else_def trim_def rt_german_def
        del: toFixed2.simps)
  have differ: "example_order_row \<noteq> example_order_row_german"
    by (simp add: example_order_row_def example_order_row_german_def)
  show ?thesis using hostile null english german differ by simp
qed

subsection \<open>Order rows\<close>

text \<open>
  Claim C7, amended: for every list of safe order nodes, the rows are, node by node,
  the node's own properties with three properties set. \<^verbatim>\<open>totalPrice\<close> is \<^verbatim>\<open>N/A\<close>
  when the money pair is absent, and otherwise the currency code, a space and
  \<^verbatim>\<open>parseFloat(amount).toFixed(2)\<close>, which has exactly two decimal places whenever
  the amount is read as a finite number of magnitude below \<open>10\<^sup>2\<^sup>1\<close>.
  \<^verbatim>\<open>customerName\<close> is \<^verbatim>\<open>Guest\<close> when the customer is absent, and otherwise first and
  last name joined by a space and trimmed, or, when that is empty, the email, or, when
  that is absent or empty too, \<^verbatim>\<open>Guest\<close>. \<^verbatim>\<open>processedAt\<close> is the browser's localized
  date of the timestamp, or \<^verbatim>\<open>N/A\<close> when the timestamp is absent or empty.
\<close>

theorem processData_order_rows:
  assumes "list_all safe_node ns"
  shows "processData rt ns Orders =
     Inr (map (\<lambda>n.
            let money = opt_prop (opt_prop n ''totalPriceSet'') ''shopMoney'';
                buyer = opt_prop n ''customer'';
                full = trim (text_of rt (or_else (opt_prop buyer ''firstName'') (JStr [])) @ '' '' @
                             text_of rt (or_else (opt_prop buyer ''lastName'') (JStr [])));
                stamp = opt_prop n ''processedAt''
            in JObj (set_prop ''processedAt''
                       (if truthy stamp then JStr (date_of rt stamp) else JStr ''N/A'')
                    (set_prop ''customerName''
                       (if truthy buyer
                        then (if full \<noteq> [] then JStr full
                              else or_else (opt_prop buyer ''email'') (JStr ''Guest''))
                        else JStr ''Guest'')
                    (set_prop ''totalPrice''
                       (if truthy money
                        then JStr (text_of rt (opt_prop money ''currencyCode'') @ '' '' @
                                   toFixed2 rt (number_of rt (opt_prop money ''amount'')))
                        else JStr ''N/A'')
                    (spread n))))) ns) \<and>
   (number_of rt a = Finite x \<and> \<bar>x\<bar> < 10 ^ 21 \<longrightarrow>
      two_decimals (toFixed2 rt (number_of rt a)))"
proof
  show "number_of rt a = Finite x \<and> \<bar>x\<bar> < 10 ^ 21 \<longrightarrow>
      two_decimals (toFixed2 rt (number_of rt a))"
    by (simp add: toFixed2_two_decimals del: toFixed2.simps)
  from assms show "processData rt ns Orders =
     Inr (map (\<lambda>n.
            let money = opt_prop (opt_prop n ''totalPriceSet'') ''shopMoney'';
                buyer = opt_prop n ''customer'';
                full = trim (text_of rt (or_else (opt_prop buyer ''firstName'') (JStr [])) @ '' '' @
                             text_of rt (or_else (opt_prop buyer ''lastName'') (JStr [])));
                stamp = opt_prop n ''processedAt''
            in JObj (set_prop ''processedAt''
                       (if truthy stamp then JStr (date_of rt stamp) else JStr ''N/A'')
                    (set_prop ''customerName''
                       (if truthy buyer
                        then (if full \<noteq> [] then JStr full
                              else or_else (opt_prop buyer ''email'') (JStr ''Guest''))
                        else JStr ''Guest'')
                    (set_prop ''totalPrice''
                       (if truthy money
                        then JStr (text_of rt (opt_prop money ''currencyCode'') @ '' '' @
                                   toFixed2 rt (number_of rt (opt_prop money ''amount'')))
                        else JStr ''N/A'')
                    (spread n))))) ns)"
  proof (induction ns)
    case Nil
    show ?case by simp
  next
    case (Cons n ns)
    then have "safe_node n" and "list_all safe_node ns" by simp_all
    with Cons.IH show ?case
      by (simp add: process_node_Orders Let_def
          del: process_node.simps toFixed2.simps set_prop.simps opt_prop.simps)
  qed
qed

text \<open>The theorem at the list of the example order and the guest order.\<close>

theorem processData_order_rows_witness:
  "list_all safe_node [example_order, guest_order] \<and>
   processData rt_example [example_order, guest_order] Orders =
     Inr [example_order_row, guest_order_row] \<and>
   opt_prop example_order_row ''totalPrice'' = JStr ''USD 12.50'' \<and>
   opt_prop example_order_row ''customerName'' = JStr ''Ada Lovelace'' \<and>
   opt_prop example_order_row ''processedAt'' = JStr ''1/2/2024'' \<and>
   two_decimals ''12.50''"
proof -
  have safe: "list_all safe_node [example_order, guest_order]"
    by (simp add: safe_node_def example_order_def guest_order_def)
  have fl: "\<lfloor>2501 / 2 :: rat\<rfloor> = 1250"
    by (rule floor_unique) simp_all
  have price: "toFixed2 rt_example (Finite (25 / 2)) = ''12.50''"
    by (simp add: fl fixed2_digits_def show_nat.simps digit_char_def Let_def)
  have amount: "number_of rt_example (JStr ''12.5'') = Finite (25 / 2)"
    by (simp add: number_of_def parseFloat_def numeric_start_def is_space_def is_digit_def
        rt_example_def)
  have date: "date_of rt_example (JStr ''2024-01-02T10:00:00Z'') = ''1/2/2024''"
    by (simp add: date_of_def rt_example_def)
  have two: "two_decimals ''12.50''"
    using processData_order_rows [OF safe, of rt_example "JStr ''12.5''" "25 / 2"]
    by (simp add: amount price del: toFixed2.simps)
  have rows: "processData rt_example [example_order, guest_order] Orders =
     Inr [example_order_row, guest_order_row]"
    using processData_order_rows [OF safe, of rt_example "JStr ''12.5''" "25 / 2"]
    by (simp add: example_order_def guest_order_def example_order_row_def guest_order_row_def
        amount price date Let_def text_of_def or_else_def trim_def is_space_def
        del: toFixed2.simps processData.simps)
  show ?thesis using safe rows two by (simp add: example_order_row_def)
qed

text \<open>
  The claim as stated gives every order row a total with exactly two decimal places
  unless the money pair is absent. A money pair without amount renders as
  \<^verbatim>\<open>USD NaN\<close>, and an amount of \<open>10\<^sup>2\<^sup>1\<close> as \<^verbatim>\<open>USD 1e+21\<close>.
\<close>

theorem processData_order_amount_counterexample:
  "processData rt_example [order_without_amount, order_huge_amount] Orders =
     Inr [JObj [(''id'', JStr ''gid://shopify/Order/3''),
                (''totalPriceSet'',
                 JObj [(''shopMoney'', JObj [(''currencyCode'', JStr ''USD'')])]),
                (''totalPrice'', JStr ''USD NaN''),
                (''customerName'', JStr ''Guest''),
                (''processedAt'', JStr ''N/A'')],
          JObj [(''id'', JStr ''gid://shopify/Order/4''),
                (''totalPriceSet'',
                 JObj [(''shopMoney'',
                        JObj [(''amount'', JStr ''1000000000000000000000''),
                              (''currencyCode'', JStr ''USD'')])]),
                (''totalPrice'', JStr ''USD 1e+21''),
                (''customerName'', JStr ''Guest''),
                (''processedAt'', JStr ''N/A'')]] \<and>
   \<not> two_decimals ''NaN'' \<and>
   \<not> two_decimals ''1e+21''"
proof -
  have nan: "\<not> two_decimals ''NaN''"
    by (simp add: two_decimals_def Let_def)
  have exp: "\<not> two_decimals ''1e+21''"
    by (simp add: two_decimals_def is_digit_def Let_def)
  have missing: "parseFloat rt_example JUndefined = Inr NaN"
    by (simp add: parseFloat_def numeric_start_def is_space_def is_digit_def)
  have huge: "parseFloat rt_example (JStr ''1000000000000000000000'') = Inr (Finite (10 ^ 21))"
    by (simp add: parseFloat_def numeric_start_def is_space_def is_digit_def rt_example_def)
  have rendered: "toFixed2 rt_example (Finite (10 ^ 21)) = ''1e+21''"
    by (simp add: rt_example_def Let_def)
  have r1: "process_node rt_example Orders order_without_amount =
     Inr (JObj [(''id'', JStr ''gid://shopify/Order/3''),
                (''totalPriceSet'',
                 JObj [(''shopMoney'', JObj [(''currencyCode'', JStr ''USD'')])]),
                (''totalPrice'', JStr ''USD NaN''),
                (''customerName'', JStr ''Guest''),
                (''processedAt'', JStr ''N/A'')])"
    using missing
    by (simp add: order_without_amount_def order_totalPrice_def order_customerName_def
        date_or_NA_def money_text_def prop2_def)
  have r2: "process_node rt_example Orders order_huge_amount =
     Inr (JObj [(''id'', JStr ''gid://shopify/Order/4''),
                (''totalPriceSet'',
                 JObj [(''shopMoney'',
                        JObj [(''amount'', JStr ''1000000000000000000000''),
                              (''currencyCode'', JStr ''USD'')])]),
                (''totalPrice'', JStr ''USD 1e+21''),
                (''customerName'', JStr ''Guest''),
                (''processedAt'', JStr ''N/A'')])"
    using huge rendered
    by (simp add: order_huge_amount_def order_totalPrice_def order_customerName_def
        date_or_NA_def money_text_def prop2_def del: toFixed2.simps)
  show ?thesis using nan exp r1 r2 by simp
qed

end
